theory Spec2Isabelle
  imports Complex_Main "HOL-Library.Char_ord" "HOL-Library.List_Lexorder" "HOL-Library.Product_Lexorder"
begin

section \<open>Python values used by the services\<close>

text \<open>
  Strings are byte strings; \<open>str.upper()\<close> is modelled on ASCII, where it clears bit 5 of
  the letters \<open>a\<close> .. \<open>z\<close> and leaves every other character alone.
\<close>

definition upper_char :: "char \<Rightarrow> char" where
  "upper_char c =
     (if 97 \<le> (of_char c :: nat) \<and> (of_char c :: nat) \<le> 122
      then (case c of Char b0 b1 b2 b3 b4 b5 b6 b7 \<Rightarrow> Char b0 b1 b2 b3 b4 False b6 b7)
      else c)"

definition upper :: "string \<Rightarrow> string" where
  "upper s = map upper_char s"

text \<open>\<open>str(n)\<close> for an integer, as an f-string interpolates it.\<close>

fun show_nat :: "nat \<Rightarrow> string" where
  "show_nat n =
     (if n < 10 then [''0123456789'' ! n]
      else show_nat (n div 10) @ [''0123456789'' ! (n mod 10)])"

declare show_nat.simps [simp del]

definition show_int :: "int \<Rightarrow> string" where
  "show_int i = (if i < 0 then CHR ''-'' # show_nat (nat (- i)) else show_nat (nat i))"

text \<open>
  \<open>int(s)\<close> on a string: surrounding whitespace is stripped, one sign is allowed, and the
  rest must be decimal digits, single underscores allowed between digits.  \<open>None\<close> is the
  \<open>ValueError\<close>.
\<close>

definition is_digit :: "char \<Rightarrow> bool" where
  "is_digit c = (48 \<le> (of_char c :: nat) \<and> (of_char c :: nat) \<le> 57)"

definition is_space :: "char \<Rightarrow> bool" where
  "is_space c = ((of_char c :: nat) = 32 \<or> (9 \<le> (of_char c :: nat) \<and> (of_char c :: nat) \<le> 13))"

definition py_strip :: "string \<Rightarrow> string" where
  "py_strip s = rev (dropWhile is_space (rev (dropWhile is_space s)))"

fun valid_digits :: "string \<Rightarrow> bool" where
  "valid_digits [] = False"
| "valid_digits [c] = is_digit c"
| "valid_digits (c # d # r) =
     (is_digit c \<and> (if d = CHR ''_'' then valid_digits r else valid_digits (d # r)))"

definition digits_value :: "string \<Rightarrow> nat" where
  "digits_value s = foldl (\<lambda>acc c. 10 * acc + ((of_char c :: nat) - 48)) 0 (filter is_digit s)"

definition signed_digits :: "string \<Rightarrow> int option" where
  "signed_digits t =
     (case t of
        [] \<Rightarrow> None
      | c # r \<Rightarrow>
          if c = CHR ''-'' then (if valid_digits r then Some (- int (digits_value r)) else None)
          else if c = CHR ''+'' then (if valid_digits r then Some (int (digits_value r)) else None)
          else (if valid_digits t then Some (int (digits_value t)) else None))"

definition py_int :: "string \<Rightarrow> int option" where
  "py_int s = signed_digits (py_strip s)"

text \<open>Truthiness of an \<open>Optional[str]\<close>: \<open>None\<close> and the empty string are falsy.\<close>

definition truthy :: "string option \<Rightarrow> bool" where
  "truthy s = (case s of None \<Rightarrow> False | Some t \<Rightarrow> t \<noteq> [])"

text \<open>
  A \<open>dict\<close> keeps insertion order: storing under a key that is present replaces the value
  in place, a new key goes to the end.
\<close>

type_synonym ('k, 'v) dict = "('k \<times> 'v) list"

fun dict_set :: "'k \<Rightarrow> 'v \<Rightarrow> ('k, 'v) dict \<Rightarrow> ('k, 'v) dict" where
  "dict_set k v [] = [(k, v)]"
| "dict_set k v ((k', v') # d) = (if k' = k then (k, v) # d else (k', v') # dict_set k v d)"

definition dict_update :: "('k, 'v) dict \<Rightarrow> ('k \<times> 'v) list \<Rightarrow> ('k, 'v) dict" where
  "dict_update d kvs = fold (\<lambda>(k, v). dict_set k v) kvs d"

definition dict_of :: "('k \<times> 'v) list \<Rightarrow> ('k, 'v) dict" where
  "dict_of kvs = dict_update [] kvs"

definition dict_get :: "('k, 'v) dict \<Rightarrow> 'k \<Rightarrow> 'v option" where
  "dict_get d k = map_of d k"

definition dict_keys :: "('k, 'v) dict \<Rightarrow> 'k list" where
  "dict_keys d = map fst d"

text \<open>The slice \<open>xs[:n]\<close>; a negative \<open>n\<close> counts from the end.\<close>

definition slice_to :: "'a list \<Rightarrow> int \<Rightarrow> 'a list" where
  "slice_to xs n = (if 0 \<le> n then take (nat n) xs else take (length xs - nat (- n)) xs)"

section \<open>The store: values, relations, statements\<close>

text \<open>
  The engine is DuckDB, which the repository drives through \<open>execute(sql, params)\<close>.  Its
  part of the behaviour is modelled by a small relational evaluator over the statement
  shapes the repository sends.  A DOUBLE is held as an exact rational.
\<close>

datatype error =
    CatalogError
  | BinderError
  | ConversionError
  | InvalidInputError
  | ConnectionError
  | NotImplementedError

datatype sql_value = VNull | VInt int | VDouble rat | VText string

type_synonym row = "(string, sql_value) dict"

record relation =
  rel_columns :: "(string \<times> string) list"
  rel_rows :: "sql_value list list"

text \<open>
  \<open>connected\<close> is false once the connection has been closed: every statement then raises.
  \<open>integer_division\<close> is the engine setting of that name: when set, \<open>/\<close> on two integers is
  integer division; when clear (the default of current engines), \<open>/\<close> is floating-point
  division.  \<open>attempted\<close> is a ghost trace of the calls to \<open>index_csv_file\<close>, kept only to
  state in which order a sweep visits the catalog.
\<close>

record PubLogDatabase =
  connected :: bool
  integer_division :: bool
  tables :: "(string \<times> relation) list"
  attempted :: "string list"

datatype expr =
    Col string
  | Param
  | Const sql_value
  | IntLit int
  | Upper expr
  | CastVarchar expr
  | CastInteger expr
  | Divide expr expr

datatype comparison = Equals | GreaterEq | Less

datatype cond =
    Compare comparison expr expr
  | Like expr expr
  | SqlAnd cond cond
  | SqlOr cond cond
  | Paren cond
  | OneEqualsOne

datatype select_items = Star | Items "(expr \<times> string option) list"

record select_stmt =
  sel_distinct :: bool
  sel_items :: select_items
  sel_from :: string
  sel_where :: "cond option"
  sel_order_by :: "string option"
  sel_limit :: "expr option"
  sel_offset :: "expr option"

subsection \<open>The statement text\<close>

text \<open>
  \<open>render\<close> gives the text of a statement, one space between tokens (the source's line
  breaks and indentation inside the SQL literals are not kept).  A positional parameter
  is the text \<open>?\<close>.
\<close>

fun render_expr :: "expr \<Rightarrow> string" where
  "render_expr (Col c) = c"
| "render_expr Param = ''?''"
| "render_expr (Const v) = ''?''"
| "render_expr (IntLit n) = show_int n"
| "render_expr (Upper e) = ''UPPER('' @ render_expr e @ '')''"
| "render_expr (CastVarchar e) = ''CAST('' @ render_expr e @ '' AS VARCHAR)''"
| "render_expr (CastInteger e) = ''CAST('' @ render_expr e @ '' AS INTEGER)''"
| "render_expr (Divide a b) = render_expr a @ '' / '' @ render_expr b"

fun render_comparison :: "comparison \<Rightarrow> string" where
  "render_comparison Equals = '' = ''"
| "render_comparison GreaterEq = '' >= ''"
| "render_comparison Less = '' < ''"

fun render_cond :: "cond \<Rightarrow> string" where
  "render_cond (Compare c a b) = render_expr a @ render_comparison c @ render_expr b"
| "render_cond (Like a b) = render_expr a @ '' LIKE '' @ render_expr b"
| "render_cond (SqlAnd a b) = render_cond a @ '' AND '' @ render_cond b"
| "render_cond (SqlOr a b) = render_cond a @ '' OR '' @ render_cond b"
| "render_cond (Paren a) = ''('' @ render_cond a @ '')''"
| "render_cond OneEqualsOne = ''1=1''"

fun render_item :: "expr \<times> string option \<Rightarrow> string" where
  "render_item (e, None) = render_expr e"
| "render_item (e, Some a) = render_expr e @ '' as '' @ a"

fun join_text :: "string \<Rightarrow> string list \<Rightarrow> string" where
  "join_text sep [] = []"
| "join_text sep [x] = x"
| "join_text sep (x # y # ys) = x @ sep @ join_text sep (y # ys)"

fun render_items :: "select_items \<Rightarrow> string" where
  "render_items Star = ''*''"
| "render_items (Items its) = join_text '', '' (map render_item its)"

definition render :: "select_stmt \<Rightarrow> string" where
  "render s =
     ''SELECT '' @ (if sel_distinct s then ''DISTINCT '' else '''') @ render_items (sel_items s)
     @ '' FROM '' @ sel_from s
     @ (case sel_where s of None \<Rightarrow> '''' | Some c \<Rightarrow> '' WHERE '' @ render_cond c)
     @ (case sel_order_by s of None \<Rightarrow> '''' | Some c \<Rightarrow> '' ORDER BY '' @ c)
     @ (case sel_limit s of None \<Rightarrow> '''' | Some e \<Rightarrow> '' LIMIT '' @ render_expr e)
     @ (case sel_offset s of None \<Rightarrow> '''' | Some e \<Rightarrow> '' OFFSET '' @ render_expr e)"

subsection \<open>Binding the positional parameters\<close>

text \<open>
  The parameters are bound to the \<open>?\<close> of the statement from left to right in the order
  of the text.  Too few or too many parameters is an error of the engine.  The client
  refuses an integer that does not fit 128 bits; the model binds every integer.
\<close>

definition and_then :: "error + 'a \<Rightarrow> ('a \<Rightarrow> error + 'b) \<Rightarrow> error + 'b" where
  "and_then r f = (case r of Inl e \<Rightarrow> Inl e | Inr v \<Rightarrow> f v)"

fun bind_expr :: "expr \<Rightarrow> sql_value list \<Rightarrow> error + (expr \<times> sql_value list)" where
  "bind_expr Param [] = Inl InvalidInputError"
| "bind_expr Param (v # vs) = Inr (Const v, vs)"
| "bind_expr (Col c) vs = Inr (Col c, vs)"
| "bind_expr (Const v) vs = Inr (Const v, vs)"
| "bind_expr (IntLit n) vs = Inr (IntLit n, vs)"
| "bind_expr (Upper e) vs = and_then (bind_expr e vs) (\<lambda>(e', vs'). Inr (Upper e', vs'))"
| "bind_expr (CastVarchar e) vs = and_then (bind_expr e vs) (\<lambda>(e', vs'). Inr (CastVarchar e', vs'))"
| "bind_expr (CastInteger e) vs = and_then (bind_expr e vs) (\<lambda>(e', vs'). Inr (CastInteger e', vs'))"
| "bind_expr (Divide a b) vs =
     and_then (bind_expr a vs) (\<lambda>(a', vs').
     and_then (bind_expr b vs') (\<lambda>(b', vs''). Inr (Divide a' b', vs'')))"

fun bind_cond :: "cond \<Rightarrow> sql_value list \<Rightarrow> error + (cond \<times> sql_value list)" where
  "bind_cond (Compare c a b) vs =
     and_then (bind_expr a vs) (\<lambda>(a', vs').
     and_then (bind_expr b vs') (\<lambda>(b', vs''). Inr (Compare c a' b', vs'')))"
| "bind_cond (Like a b) vs =
     and_then (bind_expr a vs) (\<lambda>(a', vs').
     and_then (bind_expr b vs') (\<lambda>(b', vs''). Inr (Like a' b', vs'')))"
| "bind_cond (SqlAnd a b) vs =
     and_then (bind_cond a vs) (\<lambda>(a', vs').
     and_then (bind_cond b vs') (\<lambda>(b', vs''). Inr (SqlAnd a' b', vs'')))"
| "bind_cond (SqlOr a b) vs =
     and_then (bind_cond a vs) (\<lambda>(a', vs').
     and_then (bind_cond b vs') (\<lambda>(b', vs''). Inr (SqlOr a' b', vs'')))"
| "bind_cond (Paren a) vs = and_then (bind_cond a vs) (\<lambda>(a', vs'). Inr (Paren a', vs'))"
| "bind_cond OneEqualsOne vs = Inr (OneEqualsOne, vs)"

fun bind_item_list ::
  "(expr \<times> string option) list \<Rightarrow> sql_value list \<Rightarrow> error + ((expr \<times> string option) list \<times> sql_value list)" where
  "bind_item_list [] vs = Inr ([], vs)"
| "bind_item_list ((e, a) # its) vs =
     and_then (bind_expr e vs) (\<lambda>(e', vs').
     and_then (bind_item_list its vs') (\<lambda>(its', vs''). Inr ((e', a) # its', vs'')))"

fun bind_items :: "select_items \<Rightarrow> sql_value list \<Rightarrow> error + (select_items \<times> sql_value list)" where
  "bind_items Star vs = Inr (Star, vs)"
| "bind_items (Items its) vs = and_then (bind_item_list its vs) (\<lambda>(its', vs'). Inr (Items its', vs'))"

fun bind_opt_cond :: "cond option \<Rightarrow> sql_value list \<Rightarrow> error + (cond option \<times> sql_value list)" where
  "bind_opt_cond None vs = Inr (None, vs)"
| "bind_opt_cond (Some c) vs = and_then (bind_cond c vs) (\<lambda>(c', vs'). Inr (Some c', vs'))"

fun bind_opt_expr :: "expr option \<Rightarrow> sql_value list \<Rightarrow> error + (expr option \<times> sql_value list)" where
  "bind_opt_expr None vs = Inr (None, vs)"
| "bind_opt_expr (Some e) vs = and_then (bind_expr e vs) (\<lambda>(e', vs'). Inr (Some e', vs'))"

definition bind_params :: "select_stmt \<Rightarrow> sql_value list \<Rightarrow> error + select_stmt" where
  "bind_params s vs =
     and_then (bind_items (sel_items s) vs) (\<lambda>(its, vs1).
     and_then (bind_opt_cond (sel_where s) vs1) (\<lambda>(w, vs2).
     and_then (bind_opt_expr (sel_limit s) vs2) (\<lambda>(l, vs3).
     and_then (bind_opt_expr (sel_offset s) vs3) (\<lambda>(off, vs4).
       if vs4 = [] then Inr (s\<lparr>sel_items := its, sel_where := w, sel_limit := l, sel_offset := off\<rparr>)
       else Inl InvalidInputError))))"

subsection \<open>Evaluating expressions and conditions on a row\<close>

text \<open>Identifiers are resolved without regard to case.\<close>

definition lookup_column :: "row \<Rightarrow> string \<Rightarrow> sql_value option" where
  "lookup_column r c = map_option snd (find (\<lambda>(n, v). upper n = upper c) r)"

text \<open>
  SQL \<open>LIKE\<close>: \<open>%\<close> matches any run of characters, \<open>_\<close> any one character.  The services do
  not escape the search term, so a \<open>%\<close> or \<open>_\<close> typed by the caller is a wildcard too.
\<close>

fun like_match :: "string \<Rightarrow> string \<Rightarrow> bool" where
  "like_match [] [] = True"
| "like_match (c # cs) [] = False"
| "like_match [] (p # ps) = (p = CHR ''%'' \<and> like_match [] ps)"
| "like_match (c # cs) (p # ps) =
     (if p = CHR ''%'' then like_match (c # cs) ps \<or> like_match cs (p # ps)
      else (p = CHR ''_'' \<or> p = c) \<and> like_match cs ps)"

text \<open>
  Casting a DOUBLE to INTEGER rounds to the nearest integer, ties to the even one; it does
  not truncate.
\<close>

definition round_half_even :: "rat \<Rightarrow> int" where
  "round_half_even q =
     (let f = \<lfloor>q\<rfloor>; d = q - of_int f
      in if d < 1 / 2 then f else if 1 / 2 < d then f + 1 else if even f then f else f + 1)"

text \<open>
  A text is cast to an integer when it is a decimal numeral, with an optional sign,
  surrounding blanks and single underscores between digits.  The engine also casts
  numerals with a fraction or an exponent; these forms are not modelled.
\<close>

definition integer_of_text :: "string \<Rightarrow> int option" where
  "integer_of_text s = signed_digits (py_strip s)"

text \<open>Integer division of the engine truncates towards zero; dividing by zero gives NULL.\<close>

definition truncated_div :: "int \<Rightarrow> int \<Rightarrow> int" where
  "truncated_div a b = sgn a * sgn b * (\<bar>a\<bar> div \<bar>b\<bar>)"

definition divide_values :: "bool \<Rightarrow> sql_value \<Rightarrow> sql_value \<Rightarrow> error + sql_value" where
  "divide_values int_div a b =
     (case (a, b) of
        (VNull, _) \<Rightarrow> Inr VNull
      | (_, VNull) \<Rightarrow> Inr VNull
      | (VText _, _) \<Rightarrow> Inl BinderError
      | (_, VText _) \<Rightarrow> Inl BinderError
      | (VInt x, VInt y) \<Rightarrow>
          if y = 0 then Inr VNull
          else if int_div then Inr (VInt (truncated_div x y))
          else Inr (VDouble (of_int x / of_int y))
      | (VInt x, VDouble y) \<Rightarrow> if y = 0 then Inr VNull else Inr (VDouble (of_int x / y))
      | (VDouble x, VInt y) \<Rightarrow> if y = 0 then Inr VNull else Inr (VDouble (x / of_int y))
      | (VDouble x, VDouble y) \<Rightarrow> if y = 0 then Inr VNull else Inr (VDouble (x / y)))"

text \<open>INTEGER is the 32-bit type: a value outside its range does not convert.\<close>

definition to_int32 :: "int \<Rightarrow> error + sql_value" where
  "to_int32 n = (if - (2 ^ 31) \<le> n \<and> n < 2 ^ 31 then Inr (VInt n) else Inl ConversionError)"

definition cast_integer :: "sql_value \<Rightarrow> error + sql_value" where
  "cast_integer v =
     (case v of
        VNull \<Rightarrow> Inr VNull
      | VInt n \<Rightarrow> to_int32 n
      | VDouble q \<Rightarrow> to_int32 (round_half_even q)
      | VText s \<Rightarrow> (case integer_of_text s of None \<Rightarrow> Inl ConversionError | Some n \<Rightarrow> to_int32 n))"

text \<open>The decimal text of a DOUBLE is outside the model.\<close>

definition cast_varchar :: "sql_value \<Rightarrow> error + sql_value" where
  "cast_varchar v =
     (case v of
        VNull \<Rightarrow> Inr VNull
      | VInt n \<Rightarrow> Inr (VText (show_int n))
      | VDouble q \<Rightarrow> Inl NotImplementedError
      | VText s \<Rightarrow> Inr (VText s))"

definition upper_value :: "sql_value \<Rightarrow> error + sql_value" where
  "upper_value v =
     (case v of
        VNull \<Rightarrow> Inr VNull
      | VText s \<Rightarrow> Inr (VText (upper s))
      | _ \<Rightarrow> Inl BinderError)"

fun eval_expr :: "bool \<Rightarrow> row \<Rightarrow> expr \<Rightarrow> error + sql_value" where
  "eval_expr int_div r (Col c) = (case lookup_column r c of None \<Rightarrow> Inl BinderError | Some v \<Rightarrow> Inr v)"
| "eval_expr int_div r Param = Inl InvalidInputError"
| "eval_expr int_div r (Const v) = Inr v"
| "eval_expr int_div r (IntLit n) = Inr (VInt n)"
| "eval_expr int_div r (Upper e) = and_then (eval_expr int_div r e) upper_value"
| "eval_expr int_div r (CastVarchar e) = and_then (eval_expr int_div r e) cast_varchar"
| "eval_expr int_div r (CastInteger e) = and_then (eval_expr int_div r e) cast_integer"
| "eval_expr int_div r (Divide a b) =
     and_then (eval_expr int_div r a) (\<lambda>x.
     and_then (eval_expr int_div r b) (\<lambda>y. divide_values int_div x y))"

text \<open>
  Comparison is three-valued: a NULL operand gives NULL (\<open>None\<close>).  A text compared with a
  number is cast to the number first, which fails when the text is not a number.
\<close>

fun holds :: "comparison \<Rightarrow> 'a::linorder \<Rightarrow> 'a \<Rightarrow> bool" where
  "holds Equals x y = (x = y)"
| "holds GreaterEq x y = (y \<le> x)"
| "holds Less x y = (x < y)"

fun numeric :: "sql_value \<Rightarrow> rat option" where
  "numeric (VInt n) = Some (of_int n)"
| "numeric (VDouble q) = Some q"
| "numeric (VText s) = map_option of_int (integer_of_text s)"
| "numeric VNull = None"

fun compare_values :: "comparison \<Rightarrow> sql_value \<Rightarrow> sql_value \<Rightarrow> error + bool option" where
  "compare_values c VNull w = Inr None"
| "compare_values c v VNull = Inr None"
| "compare_values c (VText s) (VText t) = Inr (Some (holds c s t))"
| "compare_values c v w =
     (case (numeric v, numeric w) of
        (Some x, Some y) \<Rightarrow> Inr (Some (holds c x y))
      | _ \<Rightarrow> Inl ConversionError)"

definition like_values :: "sql_value \<Rightarrow> sql_value \<Rightarrow> error + bool option" where
  "like_values v p =
     (case (v, p) of
        (VNull, _) \<Rightarrow> Inr None
      | (_, VNull) \<Rightarrow> Inr None
      | (VText s, VText t) \<Rightarrow> Inr (Some (like_match s t))
      | _ \<Rightarrow> Inl BinderError)"

fun and3 :: "bool option \<Rightarrow> bool option \<Rightarrow> bool option" where
  "and3 (Some False) b = Some False"
| "and3 a (Some False) = Some False"
| "and3 (Some True) (Some True) = Some True"
| "and3 a b = None"

fun or3 :: "bool option \<Rightarrow> bool option \<Rightarrow> bool option" where
  "or3 (Some True) b = Some True"
| "or3 a (Some True) = Some True"
| "or3 (Some False) (Some False) = Some False"
| "or3 a b = None"

fun eval_cond :: "bool \<Rightarrow> row \<Rightarrow> cond \<Rightarrow> error + bool option" where
  "eval_cond int_div r (Compare c a b) =
     and_then (eval_expr int_div r a) (\<lambda>x.
     and_then (eval_expr int_div r b) (\<lambda>y. compare_values c x y))"
| "eval_cond int_div r (Like a b) =
     and_then (eval_expr int_div r a) (\<lambda>x.
     and_then (eval_expr int_div r b) (\<lambda>y. like_values x y))"
| "eval_cond int_div r (SqlAnd a b) =
     and_then (eval_cond int_div r a) (\<lambda>x.
     and_then (eval_cond int_div r b) (\<lambda>y. Inr (and3 x y)))"
| "eval_cond int_div r (SqlOr a b) =
     and_then (eval_cond int_div r a) (\<lambda>x.
     and_then (eval_cond int_div r b) (\<lambda>y. Inr (or3 x y)))"
| "eval_cond int_div r (Paren a) = eval_cond int_div r a"
| "eval_cond int_div r OneEqualsOne = Inr (Some True)"

subsection \<open>Running a SELECT\<close>

fun sequence :: "(error + 'a) list \<Rightarrow> error + 'a list" where
  "sequence [] = Inr []"
| "sequence (x # xs) = and_then x (\<lambda>v. and_then (sequence xs) (\<lambda>vs. Inr (v # vs)))"

definition find_table :: "PubLogDatabase \<Rightarrow> string \<Rightarrow> relation option" where
  "find_table db name = map_option snd (find (\<lambda>(n, r). upper n = upper name) (tables db))"

definition where_rows ::
  "bool \<Rightarrow> string list \<Rightarrow> cond option \<Rightarrow> sql_value list list \<Rightarrow> error + sql_value list list" where
  "where_rows int_div names w rows =
     (case w of
        None \<Rightarrow> Inr rows
      | Some c \<Rightarrow>
          and_then (sequence (map (\<lambda>r. eval_cond int_div (zip names r) c) rows))
            (\<lambda>bs. Inr (map fst (filter (\<lambda>(r, b). b = Some True) (zip rows bs)))))"

definition item_name :: "expr \<times> string option \<Rightarrow> string" where
  "item_name it = (case snd it of Some a \<Rightarrow> a | None \<Rightarrow> render_expr (fst it))"

definition project ::
  "bool \<Rightarrow> string list \<Rightarrow> select_items \<Rightarrow> sql_value list list \<Rightarrow> error + (string list \<times> sql_value list list)" where
  "project int_div names its rows =
     (case its of
        Star \<Rightarrow> Inr (names, rows)
      | Items l \<Rightarrow>
          and_then
            (sequence (map (\<lambda>r. sequence (map (\<lambda>it. eval_expr int_div (zip names r) (fst it)) l)) rows))
            (\<lambda>out. Inr (map item_name l, out)))"

text \<open>
  ORDER BY sorts ascending with NULL last.  The engine leaves the order of rows with equal
  keys open; the model keeps them in the order of the input.
\<close>

fun order_key :: "sql_value \<Rightarrow> nat \<times> rat \<times> string" where
  "order_key (VInt n) = (0, of_int n, [])"
| "order_key (VDouble q) = (0, q, [])"
| "order_key (VText s) = (1, 0, s)"
| "order_key VNull = (2, 0, [])"

definition order_rows :: "string list \<Rightarrow> string option \<Rightarrow> sql_value list list \<Rightarrow> error + sql_value list list" where
  "order_rows names ob rows =
     (case ob of
        None \<Rightarrow> Inr rows
      | Some c \<Rightarrow>
          if \<not> list_ex (\<lambda>n. upper n = upper c) names then Inl BinderError
          else Inr (sort_key (\<lambda>r. order_key (case lookup_column (zip names r) c of
                                               None \<Rightarrow> VNull | Some v \<Rightarrow> v)) rows))"

text \<open>
  LIMIT and OFFSET take an integer from 0 to \<open>2 ^ 62\<close>, the largest count of the engine.
  They are bound as 64-bit integers: a value from \<open>2 ^ 63\<close> on does not convert.
\<close>

definition count_of :: "int \<Rightarrow> error + nat option" where
  "count_of n =
     (if n < 0 then Inl InvalidInputError
      else if 2 ^ 63 \<le> n then Inl ConversionError
      else if 2 ^ 62 < n then Inl BinderError
      else Inr (Some (nat n)))"

definition eval_count :: "expr option \<Rightarrow> error + nat option" where
  "eval_count e =
     (case e of
        None \<Rightarrow> Inr None
      | Some x \<Rightarrow>
          and_then (eval_expr False [] x)
            (\<lambda>v. case v of
                   VInt n \<Rightarrow> count_of n
                 | _ \<Rightarrow> Inl InvalidInputError))"

definition window :: "nat option \<Rightarrow> nat option \<Rightarrow> 'a list \<Rightarrow> 'a list" where
  "window count skip rows =
     (let rest = (case skip of None \<Rightarrow> rows | Some k \<Rightarrow> drop k rows)
      in case count of None \<Rightarrow> rest | Some n \<Rightarrow> take n rest)"

text \<open>
  The columns a statement names in its select list and its WHERE clause are resolved
  against the table when the statement is bound, before any row is read: a column the
  table does not have is an error also when the table is empty.
\<close>

fun expr_columns :: "expr \<Rightarrow> string list" where
  "expr_columns (Col c) = [c]"
| "expr_columns Param = []"
| "expr_columns (Const v) = []"
| "expr_columns (IntLit n) = []"
| "expr_columns (Upper e) = expr_columns e"
| "expr_columns (CastVarchar e) = expr_columns e"
| "expr_columns (CastInteger e) = expr_columns e"
| "expr_columns (Divide a b) = expr_columns a @ expr_columns b"

fun cond_columns :: "cond \<Rightarrow> string list" where
  "cond_columns (Compare c a b) = expr_columns a @ expr_columns b"
| "cond_columns (Like a b) = expr_columns a @ expr_columns b"
| "cond_columns (SqlAnd a b) = cond_columns a @ cond_columns b"
| "cond_columns (SqlOr a b) = cond_columns a @ cond_columns b"
| "cond_columns (Paren a) = cond_columns a"
| "cond_columns OneEqualsOne = []"

definition statement_columns :: "select_stmt \<Rightarrow> string list" where
  "statement_columns s =
     (case sel_items s of Star \<Rightarrow> [] | Items l \<Rightarrow> concat (map (\<lambda>it. expr_columns (fst it)) l))
     @ (case sel_where s of None \<Rightarrow> [] | Some c \<Rightarrow> cond_columns c)"

definition columns_known :: "string list \<Rightarrow> select_stmt \<Rightarrow> bool" where
  "columns_known names s =
     list_all (\<lambda>c. list_ex (\<lambda>n. upper n = upper c) names) (statement_columns s)"

text \<open>
  The result of \<open>execute\<close> on a SELECT: the names of the result columns (the cursor's
  \<open>description\<close>) and the rows (\<open>fetchall\<close>).
\<close>

definition run_select ::
  "PubLogDatabase \<Rightarrow> select_stmt \<Rightarrow> sql_value list \<Rightarrow> error + (string list \<times> sql_value list list)" where
  "run_select db s vs =
     (if \<not> connected db then Inl ConnectionError
      else
        and_then (bind_params s vs) (\<lambda>b.
          case find_table db (sel_from b) of
            None \<Rightarrow> Inl CatalogError
          | Some rel \<Rightarrow>
              if \<not> columns_known (map fst (rel_columns rel)) b then Inl BinderError
              else
              and_then (where_rows (integer_division db) (map fst (rel_columns rel)) (sel_where b) (rel_rows rel)) (\<lambda>kept.
              and_then (project (integer_division db) (map fst (rel_columns rel)) (sel_items b) kept) (\<lambda>(cols, out).
              and_then (order_rows cols (sel_order_by b) (if sel_distinct b then remdups out else out)) (\<lambda>sorted.
              and_then (eval_count (sel_limit b)) (\<lambda>count.
              and_then (eval_count (sel_offset b)) (\<lambda>skip.
                Inr (cols, window count skip sorted))))))))"

section \<open>database.py: PubLogDatabase\<close>

text \<open>
  \<open>query\<close>: run the statement, build one dict per row from the result columns.  An error of
  the engine is logged and raised again.
\<close>

definition query :: "PubLogDatabase \<Rightarrow> select_stmt \<Rightarrow> sql_value list \<Rightarrow> error + row list" where
  "query db sql params =
     (case run_select db sql params of
        Inl e \<Rightarrow> Inl e
      | Inr (columns, rows) \<Rightarrow> Inr (map (\<lambda>row. dict_of (zip columns row)) rows))"

text \<open>
  \<open>is_table_indexed\<close> counts the entries of the engine's catalog whose upper-cased name is
  the upper-cased argument; an exception gives \<open>False\<close>.
\<close>

definition count_tables :: "PubLogDatabase \<Rightarrow> string \<Rightarrow> error + nat" where
  "count_tables db name =
     (if \<not> connected db then Inl ConnectionError
      else Inr (length (filter (\<lambda>(n, r). upper n = upper name) (tables db))))"

definition is_table_indexed :: "PubLogDatabase \<Rightarrow> string \<Rightarrow> bool" where
  "is_table_indexed db table_name =
     (case count_tables db table_name of Inl e \<Rightarrow> False | Inr n \<Rightarrow> 0 < n)"

text \<open>
  The file system as the loader sees it: \<open>None\<close> when the path does not exist, otherwise
  what \<open>read_csv_auto\<close> makes of the file, a relation or an error of the engine.
\<close>

type_synonym filesystem = "string \<Rightarrow> (error + relation) option"

definition drop_table_if_exists :: "PubLogDatabase \<Rightarrow> string \<Rightarrow> error + PubLogDatabase" where
  "drop_table_if_exists db name =
     (if \<not> connected db then Inl ConnectionError
      else Inr (db\<lparr>tables := filter (\<lambda>(n, r). upper n \<noteq> upper name) (tables db)\<rparr>))"

definition create_table_from_csv ::
  "filesystem \<Rightarrow> PubLogDatabase \<Rightarrow> string \<Rightarrow> string \<Rightarrow> error + PubLogDatabase" where
  "create_table_from_csv fs db name path =
     (if \<not> connected db then Inl ConnectionError
      else case find_table db name of
        Some old \<Rightarrow> Inl CatalogError
      | None \<Rightarrow>
          (case fs path of
             None \<Rightarrow> Inl InvalidInputError
           | Some (Inl e) \<Rightarrow> Inl e
           | Some (Inr rel) \<Rightarrow> Inr (db\<lparr>tables := tables db @ [(name, rel)]\<rparr>)))"

definition count_rows :: "PubLogDatabase \<Rightarrow> string \<Rightarrow> error + nat" where
  "count_rows db name =
     (if \<not> connected db then Inl ConnectionError
      else case find_table db name of
        None \<Rightarrow> Inl CatalogError
      | Some rel \<Rightarrow> Inr (length (rel_rows rel)))"

definition index_csv_file ::
  "filesystem \<Rightarrow> PubLogDatabase \<Rightarrow> string \<Rightarrow> string \<Rightarrow> bool \<Rightarrow> bool \<times> PubLogDatabase" where
  "index_csv_file fs db0 table_name file_path force =
     (let db = db0\<lparr>attempted := attempted db0 @ [table_name]\<rparr>
      in if fs file_path = None then (False, db)
         else if is_table_indexed db table_name \<and> \<not> force then (True, db)
         else
           (case (if force then drop_table_if_exists db table_name else Inr db) of
              Inl e \<Rightarrow> (False, db)
            | Inr db1 \<Rightarrow>
                (case create_table_from_csv fs db1 table_name file_path of
                   Inl e \<Rightarrow> (False, db1)
                 | Inr db2 \<Rightarrow>
                     (case count_rows db2 table_name of
                        Inl e \<Rightarrow> (False, db2)
                      | Inr count \<Rightarrow> (True, db2)))))"

section \<open>config.py\<close>

text \<open>
  The catalog: per category, the logical table names with their source files.  The paths
  are those of the source below \<open>DATA_DIR\<close>, written relative to its parent.
\<close>

definition DATA_FILES :: "(string \<times> (string \<times> string) list) list" where
  "DATA_FILES =
     [(''cage'',
        [(''P_CAGE'', ''Data/CAGE/P_CAGE.CSV''),
         (''V_CAGE_ADDRESS'', ''Data/CAGE/V_CAGE_ADDRESS.CSV''),
         (''V_CAGE_STATUS_AND_TYPE'', ''Data/CAGE/V_CAGE_STATUS_AND_TYPE.CSV'')]),
      (''h_series'',
        [(''V_H2_FSC'', ''Data/H-SERIES/V_H2_FSC.CSV''),
         (''V_H2_FSG'', ''Data/H-SERIES/V_H2_FSG.CSV''),
         (''V_H3_AMMUNITION'', ''Data/H-SERIES/V_H3_AMMUNITION.CSV''),
         (''V_H5_BUSINESS'', ''Data/H-SERIES/V_H5_BUSINESS.CSV''),
         (''V_H5_CORPORATE'', ''Data/H-SERIES/V_H5_CORPORATE.CSV''),
         (''V_H5_DOMESTIC'', ''Data/H-SERIES/V_H5_DOMESTIC.CSV''),
         (''V_H5_FOREIGN'', ''Data/H-SERIES/V_H5_FOREIGN.CSV''),
         (''V_H6_NAME_INC'', ''Data/H-SERIES/V_H6_NAME_INC.CSV''),
         (''V_H6_MODIFIER'', ''Data/H-SERIES/V_H6_MODIFIER.CSV''),
         (''V_H6_RELATED'', ''Data/H-SERIES/V_H6_RELATED.CSV''),
         (''V_FSC_IMM'', ''Data/H-SERIES/V_FSC_IMM.CSV'')]),
      (''identification'',
        [(''P_FLIS_NSN'', ''Data/IDENTIFICATION/P_FLIS_NSN.CSV''),
         (''V_COLLOQUIAL_NAME'', ''Data/IDENTIFICATION/V_COLLOQUIAL_NAME.CSV''),
         (''V_FLIS_CANCELLED_NIIN'', ''Data/IDENTIFICATION/V_FLIS_CANCELLED_NIIN.CSV''),
         (''V_FLIS_IDENTIFICATION'', ''Data/IDENTIFICATION/V_FLIS_IDENTIFICATION.CSV''),
         (''V_FLIS_STANDARDIZATION'', ''Data/IDENTIFICATION/V_FLIS_STANDARDIZATION.CSV'')]),
      (''management'',
        [(''V_FLIS_MANAGEMENT'', ''Data/MANAGEMENT/V_FLIS_MANAGEMENT.CSV''),
         (''V_FLIS_MANAGEMENT_FUTURE'', ''Data/MANAGEMENT/V_FLIS_MANAGEMENT_FUTURE.CSV''),
         (''V_FLIS_PHRASE'', ''Data/MANAGEMENT/V_FLIS_PHRASE.CSV''),
         (''V_MGMT_AIR_FORCE'', ''Data/MANAGEMENT/V_MGMT_AIR_FORCE.CSV''),
         (''V_MGMT_ARMY'', ''Data/MANAGEMENT/V_MGMT_ARMY.CSV''),
         (''V_MGMT_COAST_GUARD'', ''Data/MANAGEMENT/V_MGMT_COAST_GUARD.CSV''),
         (''V_MGMT_MARINE_CORPS'', ''Data/MANAGEMENT/V_MGMT_MARINE_CORPS.CSV''),
         (''V_MGMT_NAVY'', ''Data/MANAGEMENT/V_MGMT_NAVY.CSV''),
         (''V_SOCOM_MANAGEMENT'', ''Data/MANAGEMENT/V_SOCOM_MANAGEMENT.CSV'')]),
      (''freight_packaging'',
        [(''V_FREIGHT'', ''Data/FREIGHT_PACKAGING/V_FREIGHT.CSV''),
         (''V_FLIS_PACKAGING_1'', ''Data/FREIGHT_PACKAGING/V_FLIS_PACKAGING_1.CSV''),
         (''V_FLIS_PACKAGING_2'', ''Data/FREIGHT_PACKAGING/V_FLIS_PACKAGING_2.CSV''),
         (''V_FLIS_PACKAGING_3'', ''Data/FREIGHT_PACKAGING/V_FLIS_PACKAGING_3.CSV'')]),
      (''history'',
        [(''V_ITEM_IDENTIFICATION_HISTORY'', ''Data/HISTORY/V_ITEM_IDENTIFICATION_HISTORY.CSV''),
         (''V_MANAGEMENT_HISTORY'', ''Data/HISTORY/V_MANAGEMENT_HISTORY.CSV''),
         (''V_REFERENCE_NUMBER_HISTORY'', ''Data/HISTORY/V_REFERENCE_NUMBER_HISTORY.CSV'')]),
      (''mrd'',
        [(''MRD0107'', ''Data/MRD/MRD0107.CSV''),
         (''MRD0300'', ''Data/MRD/MRD0300.CSV''),
         (''MRD0500'', ''Data/MRD/MRD0500.CSV''),
         (''MRD06P1'', ''Data/MRD/MRD06P1.CSV''),
         (''MRD06P2'', ''Data/MRD/MRD06P2.CSV'')]),
      (''large_files'',
        [(''FLISV'', ''Data/FLISV.CSV''),
         (''V_CHARACTERISTICS'', ''Data/V_CHARACTERISTICS-2.CSV''),
         (''V_FLIS_PART'', ''Data/V_FLIS_PART-2.CSV''),
         (''V_MOE_RULE'', ''Data/V_MOE_RULE-2.CSV'')])]"

text \<open>The two tiers.\<close>

definition PRIORITY_TABLES :: "string list" where
  "PRIORITY_TABLES =
     [''P_CAGE'',
      ''V_H2_FSC'',
      ''V_H2_FSG'',
      ''V_H6_NAME_INC'',
      ''V_H6_MODIFIER'',
      ''V_FSC_IMM'',
      ''V_FLIS_CANCELLED_NIIN'',
      ''V_COLLOQUIAL_NAME'',
      ''V_FLIS_STANDARDIZATION'',
      ''V_H3_AMMUNITION'',
      ''V_H5_BUSINESS'',
      ''V_H5_CORPORATE'',
      ''V_H5_DOMESTIC'',
      ''V_H5_FOREIGN'',
      ''V_H6_RELATED'',
      ''V_FREIGHT'',
      ''V_FLIS_PACKAGING_1'',
      ''V_FLIS_PACKAGING_2'',
      ''V_FLIS_PACKAGING_3'',
      ''V_FLIS_PHRASE'',
      ''V_MGMT_AIR_FORCE'',
      ''V_MGMT_ARMY'',
      ''V_MGMT_COAST_GUARD'',
      ''V_MGMT_MARINE_CORPS'',
      ''V_MGMT_NAVY'',
      ''V_SOCOM_MANAGEMENT'',
      ''V_FLIS_MANAGEMENT_FUTURE'']"

definition LARGE_TABLES :: "string list" where
  "LARGE_TABLES =
     [''FLISV'',
      ''V_CHARACTERISTICS'',
      ''V_FLIS_PART'',
      ''V_MOE_RULE'',
      ''V_FLIS_MANAGEMENT'',
      ''P_FLIS_NSN'',
      ''V_FLIS_IDENTIFICATION'']"

definition DEFAULT_PAGE_SIZE :: int where
  "DEFAULT_PAGE_SIZE = 50"

section \<open>database.py: the load sweeps\<close>

definition get_all_data_files :: "(string, string) dict" where
  "get_all_data_files = fold (\<lambda>(category, files) all_files. dict_update all_files files) DATA_FILES []"

text \<open>
  The loop of \<open>index_priority_tables\<close> and \<open>index_large_tables\<close>: each name of the tier that
  is in the catalog is loaded and its outcome stored under its name.
\<close>

fun index_tier ::
  "filesystem \<Rightarrow> (string, string) dict \<Rightarrow> bool \<Rightarrow> string list \<Rightarrow>
   (string, bool) dict \<times> PubLogDatabase \<Rightarrow> (string, bool) dict \<times> PubLogDatabase" where
  "index_tier fs all_files force [] (results, db) = (results, db)"
| "index_tier fs all_files force (t # ts) (results, db) =
     (case dict_get all_files t of
        None \<Rightarrow> index_tier fs all_files force ts (results, db)
      | Some file_path \<Rightarrow>
          (case index_csv_file fs db t file_path force of
             (ok, db') \<Rightarrow> index_tier fs all_files force ts (dict_set t ok results, db')))"

definition index_priority_tables ::
  "filesystem \<Rightarrow> PubLogDatabase \<Rightarrow> bool \<Rightarrow> (string, bool) dict \<times> PubLogDatabase" where
  "index_priority_tables fs db force = index_tier fs get_all_data_files force PRIORITY_TABLES ([], db)"

definition index_large_tables ::
  "filesystem \<Rightarrow> PubLogDatabase \<Rightarrow> bool \<Rightarrow> (string, bool) dict \<times> PubLogDatabase" where
  "index_large_tables fs db force = index_tier fs get_all_data_files force LARGE_TABLES ([], db)"

text \<open>
  The last loop of \<open>index_all_tables\<close>: every catalog entry whose name is not yet a key of
  \<open>results\<close> is loaded.
\<close>

fun index_remaining ::
  "filesystem \<Rightarrow> bool \<Rightarrow> (string \<times> string) list \<Rightarrow>
   (string, bool) dict \<times> PubLogDatabase \<Rightarrow> (string, bool) dict \<times> PubLogDatabase" where
  "index_remaining fs force [] (results, db) = (results, db)"
| "index_remaining fs force ((t, file_path) # rest) (results, db) =
     (if dict_get results t \<noteq> None then index_remaining fs force rest (results, db)
      else
        (case index_csv_file fs db t file_path force of
           (ok, db') \<Rightarrow> index_remaining fs force rest (dict_set t ok results, db')))"

definition index_all_tables ::
  "filesystem \<Rightarrow> PubLogDatabase \<Rightarrow> bool \<Rightarrow> (string, bool) dict \<times> PubLogDatabase" where
  "index_all_tables fs db force =
     (case index_priority_tables fs db force of
        (priority, db1) \<Rightarrow>
          (case index_large_tables fs db1 force of
             (large, db2) \<Rightarrow>
               index_remaining fs force get_all_data_files
                 (dict_update (dict_update [] priority) large, db2)))"

section \<open>database.py: describing a table\<close>


record table_info =
  table_name :: string
  row_count :: nat
  columns :: "(string \<times> string) list"



section \<open>data_loader.py: the domain services\<close>

text \<open>
  Each method is given in two parts: the statement and the parameter list it hands to
  \<open>query\<close> (a definition ending in \<open>_request\<close>), and the method itself.
\<close>

definition select_all :: "string \<Rightarrow> select_stmt" where
  "select_all t =
     \<lparr>sel_distinct = False, sel_items = Star, sel_from = t, sel_where = None,
      sel_order_by = None, sel_limit = None, sel_offset = None\<rparr>"

definition search_term :: "string \<Rightarrow> string" where
  "search_term q = ''%'' @ upper q @ ''%''"

text \<open>\<open>results[0] if results else None\<close>\<close>

definition first_or_none :: "error + row list \<Rightarrow> error + row option" where
  "first_or_none r = and_then r (\<lambda>results. Inr (case results of [] \<Rightarrow> None | x # xs \<Rightarrow> Some x))"

text \<open>\<open>" AND ".join(conditions)\<close>; there is no clause for the empty list.\<close>

fun join_and :: "cond list \<Rightarrow> cond option" where
  "join_and [] = None"
| "join_and (c # cs) = Some (foldl SqlAnd c cs)"

subsection \<open>CAGEService\<close>

definition CAGE_get_by_code_request :: "string \<Rightarrow> select_stmt \<times> sql_value list" where
  "CAGE_get_by_code_request cage_code =
     ((select_all ''P_CAGE'')
        \<lparr>sel_where := Some (Compare Equals (Col ''CAGE_CODE'') Param), sel_limit := Some (IntLit 1)\<rparr>,
      [VText (upper cage_code)])"

definition CAGE_get_by_code :: "PubLogDatabase \<Rightarrow> string \<Rightarrow> error + row option" where
  "CAGE_get_by_code db cage_code =
     first_or_none (query db (fst (CAGE_get_by_code_request cage_code)) (snd (CAGE_get_by_code_request cage_code)))"

definition CAGE_search_request :: "string \<Rightarrow> int \<Rightarrow> int \<Rightarrow> select_stmt \<times> sql_value list" where
  "CAGE_search_request q limit offset =
     ((select_all ''P_CAGE'')
        \<lparr>sel_where := Some (SqlOr (SqlOr (Like (Upper (Col ''COMPANY'')) Param)
                                        (Like (Upper (Col ''CITY'')) Param))
                                 (Like (Col ''CAGE_CODE'') Param)),
         sel_order_by := Some ''COMPANY'',
         sel_limit := Some Param,
         sel_offset := Some Param\<rparr>,
      [VText (search_term q), VText (search_term q), VText (search_term q), VInt limit, VInt offset])"

definition CAGE_search :: "PubLogDatabase \<Rightarrow> string \<Rightarrow> int \<Rightarrow> int \<Rightarrow> error + row list" where
  "CAGE_search db q limit offset =
     query db (fst (CAGE_search_request q limit offset)) (snd (CAGE_search_request q limit offset))"

text \<open>
  \<open>search_by_location\<close> collects one condition and one parameter per filter that is
  truthy, in the order state, city, country.
\<close>

definition location_conditions :: "string option \<Rightarrow> string option \<Rightarrow> string option \<Rightarrow> cond list" where
  "location_conditions state city country =
     (if truthy state then [Compare Equals (Upper (Col ''STATE_PROVINCE'')) Param] else [])
     @ (if truthy city then [Like (Upper (Col ''CITY'')) Param] else [])
     @ (if truthy country then [Like (Upper (Col ''COUNTRY'')) Param] else [])"

definition location_params :: "string option \<Rightarrow> string option \<Rightarrow> string option \<Rightarrow> sql_value list" where
  "location_params state city country =
     (case state of Some s \<Rightarrow> if s \<noteq> [] then [VText (upper s)] else [] | None \<Rightarrow> [])
     @ (case city of Some s \<Rightarrow> if s \<noteq> [] then [VText (search_term s)] else [] | None \<Rightarrow> [])
     @ (case country of Some s \<Rightarrow> if s \<noteq> [] then [VText (search_term s)] else [] | None \<Rightarrow> [])"

definition CAGE_search_by_location_request ::
  "string option \<Rightarrow> string option \<Rightarrow> string option \<Rightarrow> int \<Rightarrow> select_stmt \<times> sql_value list" where
  "CAGE_search_by_location_request state city country limit =
     ((select_all ''P_CAGE'')
        \<lparr>sel_where := join_and (location_conditions state city country),
         sel_order_by := Some ''COMPANY'',
         sel_limit := Some Param\<rparr>,
      location_params state city country @ [VInt limit])"

definition CAGE_search_by_location ::
  "PubLogDatabase \<Rightarrow> string option \<Rightarrow> string option \<Rightarrow> string option \<Rightarrow> int \<Rightarrow> error + row list" where
  "CAGE_search_by_location db state city country limit =
     (if location_conditions state city country = [] then Inr []
      else query db (fst (CAGE_search_by_location_request state city country limit))
                    (snd (CAGE_search_by_location_request state city country limit)))"

subsection \<open>FSCService\<close>

definition get_all_fsg_request :: "select_stmt \<times> sql_value list" where
  "get_all_fsg_request =
     ((select_all ''V_H2_FSG'')
        \<lparr>sel_distinct := True,
         sel_items := Items [(CastInteger (Divide (Col ''FSC'') (IntLit 100)), Some ''FSG''),
                             (Col ''FSG_TITLE'', None)],
         sel_order_by := Some ''FSG''\<rparr>,
      [])"

definition get_all_fsg :: "PubLogDatabase \<Rightarrow> error + row list" where
  "get_all_fsg db = query db (fst get_all_fsg_request) (snd get_all_fsg_request)"

definition get_all_fsc_request :: "select_stmt \<times> sql_value list" where
  "get_all_fsc_request = ((select_all ''V_H2_FSC'')\<lparr>sel_order_by := Some ''FSC''\<rparr>, [])"

definition get_all_fsc :: "PubLogDatabase \<Rightarrow> error + row list" where
  "get_all_fsc db = query db (fst get_all_fsc_request) (snd get_all_fsc_request)"

definition get_fsc_by_code_request :: "string \<Rightarrow> select_stmt \<times> sql_value list" where
  "get_fsc_by_code_request fsc =
     (case py_int fsc of
        Some fsc_int \<Rightarrow>
          ((select_all ''V_H2_FSC'')
             \<lparr>sel_where := Some (Compare Equals (Col ''FSC'') Param), sel_limit := Some (IntLit 1)\<rparr>,
           [VInt fsc_int])
      | None \<Rightarrow>
          ((select_all ''V_H2_FSC'')
             \<lparr>sel_where := Some (Compare Equals (CastVarchar (Col ''FSC'')) Param),
              sel_limit := Some (IntLit 1)\<rparr>,
           [VText fsc]))"

definition get_fsc_by_code :: "PubLogDatabase \<Rightarrow> string \<Rightarrow> error + row option" where
  "get_fsc_by_code db fsc =
     first_or_none (query db (fst (get_fsc_by_code_request fsc)) (snd (get_fsc_by_code_request fsc)))"

definition get_fsc_by_fsg_request :: "int \<Rightarrow> select_stmt \<times> sql_value list" where
  "get_fsc_by_fsg_request fsg_int =
     ((select_all ''V_H2_FSC'')
        \<lparr>sel_where := Some (SqlAnd (Compare GreaterEq (Col ''FSC'') Param) (Compare Less (Col ''FSC'') Param)),
         sel_order_by := Some ''FSC''\<rparr>,
      [VInt (fsg_int * 100), VInt ((fsg_int + 1) * 100)])"

definition get_fsc_by_fsg :: "PubLogDatabase \<Rightarrow> string \<Rightarrow> error + row list" where
  "get_fsc_by_fsg db fsg =
     (case py_int fsg of
        Some fsg_int \<Rightarrow> query db (fst (get_fsc_by_fsg_request fsg_int)) (snd (get_fsc_by_fsg_request fsg_int))
      | None \<Rightarrow> Inr [])"

definition search_fsc_request :: "string \<Rightarrow> select_stmt \<times> sql_value list" where
  "search_fsc_request q =
     (case py_int q of
        Some fsc_int \<Rightarrow>
          ((select_all ''V_H2_FSC'')
             \<lparr>sel_where := Some (SqlOr (Compare Equals (Col ''FSC'') Param)
                                      (Like (Upper (Col ''FSC_TITLE'')) Param)),
              sel_order_by := Some ''FSC'',
              sel_limit := Some (IntLit 100)\<rparr>,
           [VInt fsc_int, VText (search_term q)])
      | None \<Rightarrow>
          ((select_all ''V_H2_FSC'')
             \<lparr>sel_where := Some (Like (Upper (Col ''FSC_TITLE'')) Param),
              sel_order_by := Some ''FSC'',
              sel_limit := Some (IntLit 100)\<rparr>,
           [VText (search_term q)]))"

definition search_fsc :: "PubLogDatabase \<Rightarrow> string \<Rightarrow> error + row list" where
  "search_fsc db q = query db (fst (search_fsc_request q)) (snd (search_fsc_request q))"

subsection \<open>NSNService\<close>

definition get_by_niin_request :: "string \<Rightarrow> string \<Rightarrow> select_stmt \<times> sql_value list" where
  "get_by_niin_request t niin =
     ((select_all t)\<lparr>sel_where := Some (Compare Equals (Col ''NIIN'') Param), sel_limit := Some (IntLit 1)\<rparr>,
      [VText niin])"

text \<open>
  \<open>get_by_niin\<close>: the primary relation first, when it is indexed; when it is not, or its
  query gives no row, the secondary relation, when that is indexed; otherwise \<open>None\<close>.  An
  error of either query is raised to the caller.
\<close>

definition get_by_niin_in :: "PubLogDatabase \<Rightarrow> string \<Rightarrow> string \<Rightarrow> error + row list" where
  "get_by_niin_in db t niin =
     (if is_table_indexed db t
      then query db (fst (get_by_niin_request t niin)) (snd (get_by_niin_request t niin))
      else Inr [])"

definition get_by_niin :: "PubLogDatabase \<Rightarrow> string \<Rightarrow> error + row option" where
  "get_by_niin db niin =
     and_then (get_by_niin_in db ''P_FLIS_NSN'' niin) (\<lambda>results.
       case results of
         x # xs \<Rightarrow> Inr (Some x)
       | [] \<Rightarrow>
           and_then (get_by_niin_in db ''FLISV'' niin) (\<lambda>results.
             case results of x # xs \<Rightarrow> Inr (Some x) | [] \<Rightarrow> Inr None))"

definition nsn_conditions :: "string \<Rightarrow> string option \<Rightarrow> cond list" where
  "nsn_conditions q fsc =
     (if q \<noteq> [] then [Paren (SqlOr (Like (Col ''NIIN'') Param) (Like (Upper (Col ''ITEM_NAME'')) Param))]
      else [])
     @ (case fsc of
          None \<Rightarrow> []
        | Some f \<Rightarrow>
            if f = [] then []
            else (case py_int f of
                    Some fsc_int \<Rightarrow> [Compare Equals (Col ''FSC'') Param]
                  | None \<Rightarrow> [Compare Equals (CastVarchar (Col ''FSC'')) Param]))"

definition nsn_params :: "string \<Rightarrow> string option \<Rightarrow> sql_value list" where
  "nsn_params q fsc =
     (if q \<noteq> [] then [VText (search_term q), VText (search_term q)] else [])
     @ (case fsc of
          None \<Rightarrow> []
        | Some f \<Rightarrow>
            if f = [] then []
            else (case py_int f of Some fsc_int \<Rightarrow> [VInt fsc_int] | None \<Rightarrow> [VText f]))"

definition NSN_search_request ::
  "string \<Rightarrow> string option \<Rightarrow> int \<Rightarrow> int \<Rightarrow> select_stmt \<times> sql_value list" where
  "NSN_search_request q fsc limit offset =
     ((select_all ''P_FLIS_NSN'')
        \<lparr>sel_where := (case join_and (nsn_conditions q fsc) of
                         Some c \<Rightarrow> Some c
                       | None \<Rightarrow> Some OneEqualsOne),
         sel_limit := Some Param,
         sel_offset := Some Param\<rparr>,
      nsn_params q fsc @ [VInt limit, VInt offset])"

definition NSN_search ::
  "PubLogDatabase \<Rightarrow> string \<Rightarrow> string option \<Rightarrow> int \<Rightarrow> int \<Rightarrow> error + row list" where
  "NSN_search db q fsc limit offset =
     (if \<not> is_table_indexed db ''P_FLIS_NSN'' then Inr []
      else query db (fst (NSN_search_request q fsc limit offset))
                    (snd (NSN_search_request q fsc limit offset)))"

definition get_by_fsc_request :: "string \<Rightarrow> int \<Rightarrow> int \<Rightarrow> select_stmt \<times> sql_value list" where
  "get_by_fsc_request fsc limit offset =
     (case py_int fsc of
        Some fsc_int \<Rightarrow>
          ((select_all ''P_FLIS_NSN'')
             \<lparr>sel_where := Some (Compare Equals (Col ''FSC'') Param),
              sel_limit := Some Param, sel_offset := Some Param\<rparr>,
           [VInt fsc_int, VInt limit, VInt offset])
      | None \<Rightarrow>
          ((select_all ''P_FLIS_NSN'')
             \<lparr>sel_where := Some (Compare Equals (CastVarchar (Col ''FSC'')) Param),
              sel_limit := Some Param, sel_offset := Some Param\<rparr>,
           [VText fsc, VInt limit, VInt offset]))"

definition get_by_fsc :: "PubLogDatabase \<Rightarrow> string \<Rightarrow> int \<Rightarrow> int \<Rightarrow> error + row list" where
  "get_by_fsc db fsc limit offset =
     (if is_table_indexed db ''P_FLIS_NSN''
      then query db (fst (get_by_fsc_request fsc limit offset)) (snd (get_by_fsc_request fsc limit offset))
      else Inr [])"

definition by_niin_request :: "string \<Rightarrow> string \<Rightarrow> select_stmt \<times> sql_value list" where
  "by_niin_request t niin =
     ((select_all t)\<lparr>sel_where := Some (Compare Equals (Col ''NIIN'') Param)\<rparr>, [VText niin])"

definition get_management_data :: "PubLogDatabase \<Rightarrow> string \<Rightarrow> error + row list" where
  "get_management_data db niin =
     (if \<not> is_table_indexed db ''V_FLIS_MANAGEMENT'' then Inr []
      else query db (fst (by_niin_request ''V_FLIS_MANAGEMENT'' niin))
                    (snd (by_niin_request ''V_FLIS_MANAGEMENT'' niin)))"

definition get_characteristics :: "PubLogDatabase \<Rightarrow> string \<Rightarrow> error + row list" where
  "get_characteristics db niin =
     (if \<not> is_table_indexed db ''V_CHARACTERISTICS'' then Inr []
      else query db (fst (by_niin_request ''V_CHARACTERISTICS'' niin))
                    (snd (by_niin_request ''V_CHARACTERISTICS'' niin)))"

subsection \<open>ItemNameService\<close>

definition get_by_inc_request :: "string \<Rightarrow> select_stmt \<times> sql_value list" where
  "get_by_inc_request inc =
     ((select_all ''V_H6_NAME_INC'')
        \<lparr>sel_where := Some (Compare Equals (Col ''INC'') Param), sel_limit := Some (IntLit 1)\<rparr>,
      [VText inc])"

definition get_by_inc :: "PubLogDatabase \<Rightarrow> string \<Rightarrow> error + row option" where
  "get_by_inc db inc =
     first_or_none (query db (fst (get_by_inc_request inc)) (snd (get_by_inc_request inc)))"

definition ItemName_search_request :: "string \<Rightarrow> int \<Rightarrow> select_stmt \<times> sql_value list" where
  "ItemName_search_request q limit =
     ((select_all ''V_H6_NAME_INC'')
        \<lparr>sel_where := Some (SqlOr (SqlOr (Like (Upper (Col ''FIIG_TITLE'')) Param)
                                        (Like (Upper (Col ''DEFINITION'')) Param))
                                 (Like (Col ''INC'') Param)),
         sel_order_by := Some ''FIIG_TITLE'',
         sel_limit := Some Param\<rparr>,
      [VText (search_term q), VText (search_term q), VText (search_term q), VInt limit])"

definition ItemName_search :: "PubLogDatabase \<Rightarrow> string \<Rightarrow> int \<Rightarrow> error + row list" where
  "ItemName_search db q limit =
     query db (fst (ItemName_search_request q limit)) (snd (ItemName_search_request q limit))"

text \<open>\<open>get_all\<close> writes the limit into the statement text with an f-string.\<close>

definition get_all_request :: "int \<Rightarrow> select_stmt \<times> sql_value list" where
  "get_all_request limit =
     ((select_all ''V_H6_NAME_INC'')\<lparr>sel_order_by := Some ''FIIG_TITLE'', sel_limit := Some (IntLit limit)\<rparr>,
      [])"

definition get_all :: "PubLogDatabase \<Rightarrow> int \<Rightarrow> error + row list" where
  "get_all db limit = query db (fst (get_all_request limit)) (snd (get_all_request limit))"

subsection \<open>UnifiedSearchService\<close>

text \<open>
  One \<open>try\<close> block of \<open>search_all\<close>: the result is stored under the key when the search
  returns; when it raises, the error is logged and \<open>results\<close> keeps what it had.
\<close>

definition store_or_log :: "string \<Rightarrow> error + row list \<Rightarrow> (string, row list) dict \<Rightarrow> (string, row list) dict" where
  "store_or_log key r results = (case r of Inl e \<Rightarrow> results | Inr rows \<Rightarrow> dict_set key rows results)"

definition search_all :: "PubLogDatabase \<Rightarrow> string \<Rightarrow> int \<Rightarrow> (string, row list) dict" where
  "search_all db q limit =
     store_or_log ''item_names'' (ItemName_search db q limit)
       (store_or_log ''nsn'' (NSN_search db q None limit 0)
          (store_or_log ''fsc'' (and_then (search_fsc db q) (\<lambda>rows. Inr (slice_to rows limit)))
             (store_or_log ''cage'' (CAGE_search db q limit 0)
                [(''cage'', []), (''fsc'', []), (''nsn'', []), (''item_names'', [])])))"

section \<open>Auxiliary notions and example stores\<close>

text \<open>What a \<open>try\<close> block of \<open>search_all\<close> leaves under its key.\<close>

definition rows_or_empty :: "error + row list \<Rightarrow> row list" where
  "rows_or_empty r = (case r of Inl e \<Rightarrow> [] | Inr rows \<Rightarrow> rows)"

definition empty_db :: PubLogDatabase where
  "empty_db = \<lparr>connected = True, integer_division = False, tables = [], attempted = []\<rparr>"

definition fsc_rel :: relation where
  "fsc_rel =
     \<lparr>rel_columns = [(''FSC'', ''BIGINT''), (''FSC_TITLE'', ''VARCHAR'')],
      rel_rows = [[VInt 5821, VText ''RADIO NAV''], [VInt 5820, VText ''RADIO COMM'']]\<rparr>"

definition fsc_db :: PubLogDatabase where
  "fsc_db = \<lparr>connected = True, integer_division = False, tables = [(''V_H2_FSC'', fsc_rel)], attempted = []\<rparr>"

definition cage_rel :: relation where
  "cage_rel =
     \<lparr>rel_columns = [(''CAGE_CODE'', ''VARCHAR''), (''COMPANY'', ''VARCHAR'')],
      rel_rows = [[VText ''1ABC5'', VText ''ACME'']]\<rparr>"

text \<open>A file system with one readable source, and one where every source exists but cannot be read.\<close>

definition cage_fs :: filesystem where
  "cage_fs p = (if p = ''Data/CAGE/P_CAGE.CSV'' then Some (Inr cage_rel) else None)"

definition unreadable_fs :: filesystem where
  "unreadable_fs p = Some (Inl InvalidInputError)"

text \<open>
  The sweep as the specification words it: the entries are taken one after the other,
  each is loaded once, and its outcome is recorded under its name.
\<close>

fun attempt_each_once ::
  "filesystem \<Rightarrow> bool \<Rightarrow> (string \<times> string) list \<Rightarrow> PubLogDatabase \<Rightarrow> (string, bool) dict \<times> PubLogDatabase" where
  "attempt_each_once fs force [] db = ([], db)"
| "attempt_each_once fs force ((t, p) # rest) db =
     (case index_csv_file fs db t p force of
        (ok, db') \<Rightarrow>
          (case attempt_each_once fs force rest db' of (outs, db'') \<Rightarrow> ((t, ok) # outs, db'')))"

text \<open>
  The order of the specification: the names of the priority tier that the catalog has,
  then those of the large tier, then the catalog entries that are in neither tier, in
  catalog order.
\<close>

definition tier_entries :: "(string, string) dict \<Rightarrow> string list \<Rightarrow> (string \<times> string) list" where
  "tier_entries all_files tier =
     concat (map (\<lambda>t. case dict_get all_files t of None \<Rightarrow> [] | Some p \<Rightarrow> [(t, p)]) tier)"

definition untiered_entries :: "(string \<times> string) list" where
  "untiered_entries =
     filter (\<lambda>e. fst e \<notin> set PRIORITY_TABLES \<and> fst e \<notin> set LARGE_TABLES) get_all_data_files"

definition sweep_order :: "(string \<times> string) list" where
  "sweep_order =
     tier_entries get_all_data_files PRIORITY_TABLES
     @ tier_entries get_all_data_files LARGE_TABLES
     @ untiered_entries"

text \<open>
  The query methods of the four services as calls with their arguments, to state what the
  text of the statements of a call depends on.  \<open>requests_of\<close> lists the statements a call
  may hand to \<open>query\<close>.  \<open>ItemNameService.get_all\<close> is not among them; its statement is
  \<open>get_all_request\<close>.  \<open>CAGEService.get_stats\<close> takes no argument and is left out.
\<close>

datatype call =
    CageGetByCode string
  | CageSearch string int int
  | CageSearchByLocation "string option" "string option" "string option" int
  | GetAllFsg
  | GetAllFsc
  | GetFscByCode string
  | GetFscByFsg string
  | SearchFsc string
  | GetByNiin string
  | NsnSearch string "string option" int int
  | GetByFsc string int int
  | GetManagementData string
  | GetCharacteristics string
  | GetByInc string
  | ItemNameSearch string int

datatype operation =
    OpCageGetByCode | OpCageSearch | OpCageSearchByLocation | OpGetAllFsg | OpGetAllFsc
  | OpGetFscByCode | OpGetFscByFsg | OpSearchFsc | OpGetByNiin | OpNsnSearch | OpGetByFsc
  | OpGetManagementData | OpGetCharacteristics | OpGetByInc | OpItemNameSearch

fun operation_of :: "call \<Rightarrow> operation" where
  "operation_of (CageGetByCode c) = OpCageGetByCode"
| "operation_of (CageSearch q l off) = OpCageSearch"
| "operation_of (CageSearchByLocation s c k l) = OpCageSearchByLocation"
| "operation_of GetAllFsg = OpGetAllFsg"
| "operation_of GetAllFsc = OpGetAllFsc"
| "operation_of (GetFscByCode f) = OpGetFscByCode"
| "operation_of (GetFscByFsg g) = OpGetFscByFsg"
| "operation_of (SearchFsc q) = OpSearchFsc"
| "operation_of (GetByNiin n) = OpGetByNiin"
| "operation_of (NsnSearch q f l off) = OpNsnSearch"
| "operation_of (GetByFsc f l off) = OpGetByFsc"
| "operation_of (GetManagementData n) = OpGetManagementData"
| "operation_of (GetCharacteristics n) = OpGetCharacteristics"
| "operation_of (GetByInc i) = OpGetByInc"
| "operation_of (ItemNameSearch q l) = OpItemNameSearch"

fun requests_of :: "call \<Rightarrow> (select_stmt \<times> sql_value list) list" where
  "requests_of (CageGetByCode c) = [CAGE_get_by_code_request c]"
| "requests_of (CageSearch q l off) = [CAGE_search_request q l off]"
| "requests_of (CageSearchByLocation s c k l) =
     (if location_conditions s c k = [] then [] else [CAGE_search_by_location_request s c k l])"
| "requests_of GetAllFsg = [get_all_fsg_request]"
| "requests_of GetAllFsc = [get_all_fsc_request]"
| "requests_of (GetFscByCode f) = [get_fsc_by_code_request f]"
| "requests_of (GetFscByFsg g) = (case py_int g of Some fsg_int \<Rightarrow> [get_fsc_by_fsg_request fsg_int] | None \<Rightarrow> [])"
| "requests_of (SearchFsc q) = [search_fsc_request q]"
| "requests_of (GetByNiin n) = [get_by_niin_request ''P_FLIS_NSN'' n, get_by_niin_request ''FLISV'' n]"
| "requests_of (NsnSearch q f l off) = [NSN_search_request q f l off]"
| "requests_of (GetByFsc f l off) = [get_by_fsc_request f l off]"
| "requests_of (GetManagementData n) = [by_niin_request ''V_FLIS_MANAGEMENT'' n]"
| "requests_of (GetCharacteristics n) = [by_niin_request ''V_CHARACTERISTICS'' n]"
| "requests_of (GetByInc i) = [get_by_inc_request i]"
| "requests_of (ItemNameSearch q l) = [ItemName_search_request q l]"

text \<open>
  What the text may depend on: which optional text filters are non-empty, and whether a
  code argument is accepted by \<open>int()\<close>.
\<close>

definition parses :: "string \<Rightarrow> bool" where
  "parses s = (py_int s \<noteq> None)"

fun value_class :: "call \<Rightarrow> bool list" where
  "value_class (CageSearchByLocation s c k l) = [truthy s, truthy c, truthy k]"
| "value_class (GetFscByCode f) = [parses f]"
| "value_class (GetFscByFsg g) = [parses g]"
| "value_class (SearchFsc q) = [parses q]"
| "value_class (NsnSearch q f l off) =
     [q \<noteq> [], truthy f, (case f of None \<Rightarrow> False | Some t \<Rightarrow> t \<noteq> [] \<and> parses t)]"
| "value_class (GetByFsc f l off) = [parses f]"
| "value_class c = []"

definition statement_texts :: "call \<Rightarrow> string list" where
  "statement_texts c = map (\<lambda>r. render (fst r)) (requests_of c)"

text \<open>
  For the stock-number lookup: the NIIN cell of a row, whether the engine finds it equal
  to the key, and whether every row of a relation has a NIIN cell that the engine can
  compare with the key (a text column, or a numeric column with a numeric key).
\<close>

definition niin_of :: "relation \<Rightarrow> sql_value list \<Rightarrow> sql_value option" where
  "niin_of rel r = lookup_column (zip (map fst (rel_columns rel)) r) ''NIIN''"

definition has_niin :: "relation \<Rightarrow> string \<Rightarrow> sql_value list \<Rightarrow> bool" where
  "has_niin rel key r =
     (case niin_of rel r of None \<Rightarrow> False | Some v \<Rightarrow> compare_values Equals v (VText key) = Inr (Some True))"

definition niin_comparable :: "relation \<Rightarrow> string \<Rightarrow> bool" where
  "niin_comparable rel key =
     list_all (\<lambda>r. case niin_of rel r of None \<Rightarrow> False | Some v \<Rightarrow> \<not> isl (compare_values Equals v (VText key)))
       (rel_rows rel)"

definition to_dicts :: "relation \<Rightarrow> sql_value list list \<Rightarrow> row list" where
  "to_dicts rel rows = map (\<lambda>r. dict_of (zip (map fst (rel_columns rel)) r)) rows"

text \<open>A store where only the secondary stock-number relation is loaded.\<close>

definition flisv_rel :: relation where
  "flisv_rel =
     \<lparr>rel_columns = [(''NIIN'', ''BIGINT''), (''MRC'', ''VARCHAR'')],
      rel_rows = [[VInt 12345678, VText ''AAAA''], [VInt 57, VText ''BBBB'']]\<rparr>"

definition flisv_db :: PubLogDatabase where
  "flisv_db = \<lparr>connected = True, integer_division = False, tables = [(''FLISV'', flisv_rel)], attempted = []\<rparr>"

text \<open>A store with the primary stock-number relation.\<close>

definition nsn_rel :: relation where
  "nsn_rel =
     \<lparr>rel_columns = [(''NIIN'', ''VARCHAR''), (''FSC'', ''BIGINT''), (''ITEM_NAME'', ''VARCHAR'')],
      rel_rows = [[VText ''000000057'', VInt 5305, VText ''SCREW''],
                  [VText ''000000058'', VInt 5310, VText ''NUT''],
                  [VText ''000000059'', VInt 5310, VText ''WASHER'']]\<rparr>"

definition nsn_db :: PubLogDatabase where
  "nsn_db = \<lparr>connected = True, integer_division = False, tables = [(''p_flis_nsn'', nsn_rel)], attempted = []\<rparr>"

text \<open>
  Stores with the group table and the class table, for either setting of the division
  of the engine.
\<close>

definition fsg_rel :: relation where
  "fsg_rel =
     \<lparr>rel_columns = [(''FSC'', ''BIGINT''), (''FSG_TITLE'', ''VARCHAR'')],
      rel_rows = [[VInt 5820, VText ''COMM EQUIPMENT''], [VInt 5821, VText ''COMM EQUIPMENT'']]\<rparr>"

definition fsg_rel_5895 :: relation where
  "fsg_rel_5895 =
     \<lparr>rel_columns = [(''FSC'', ''BIGINT''), (''FSG_TITLE'', ''VARCHAR'')],
      rel_rows = [[VInt 5820, VText ''COMM EQUIPMENT''], [VInt 5895, VText ''COMM EQUIPMENT'']]\<rparr>"

definition fsc_rel_5895 :: relation where
  "fsc_rel_5895 =
     \<lparr>rel_columns = [(''FSC'', ''BIGINT''), (''FSC_TITLE'', ''VARCHAR'')],
      rel_rows = [[VInt 5820, VText ''RADIO COMM''], [VInt 5895, VText ''MISC COMM'']]\<rparr>"

definition fsg_db :: "bool \<Rightarrow> relation \<Rightarrow> PubLogDatabase" where
  "fsg_db int_div rel =
     \<lparr>connected = True, integer_division = int_div,
      tables = [(''V_H2_FSG'', rel), (''V_H2_FSC'', fsc_rel_5895)], attempted = []\<rparr>"

section \<open>Properties\<close>

subsection \<open>Dicts\<close>

lemma dict_keys_dict_set: "k \<in> set (dict_keys d) \<Longrightarrow> dict_keys (dict_set k v d) = dict_keys d"
  by (induction d) (auto simp: dict_keys_def rev_image_eqI)

lemma dict_get_dict_set: "dict_get (dict_set k v d) k' = (if k' = k then Some v else dict_get d k')"
  by (induction d) (auto simp: dict_get_def)

lemma dict_keys_store_or_log: "k \<in> set (dict_keys d) \<Longrightarrow> dict_keys (store_or_log k r d) = dict_keys d"
  by (cases r) (simp_all add: store_or_log_def dict_keys_dict_set)

lemma dict_get_store_or_log:
  "dict_get (store_or_log k r d) k' =
     (if k' = k then (case r of Inl e \<Rightarrow> dict_get d k | Inr rows \<Rightarrow> Some rows) else dict_get d k')"
  by (cases r) (simp_all add: store_or_log_def dict_get_dict_set)

subsection \<open>The catalog of the engine\<close>

lemma find_append_None: "find P xs = None \<Longrightarrow> find P (xs @ ys) = find P ys"
  by (induction xs) (auto split: if_splits)

lemma find_table_None_iff:
  "find_table db name = None \<longleftrightarrow> filter (\<lambda>(n, r). upper n = upper name) (tables db) = []"
  by (auto simp: find_table_def find_None_iff filter_empty_conv)

lemma is_table_indexed_iff: "is_table_indexed db name \<longleftrightarrow> connected db \<and> find_table db name \<noteq> None"
  by (simp add: is_table_indexed_def count_tables_def find_table_None_iff)

lemma is_table_indexed_attempted [simp]:
  "is_table_indexed (db\<lparr>attempted := a\<rparr>) t = is_table_indexed db t"
  by (simp add: is_table_indexed_def count_tables_def)

lemma find_table_attempted [simp]:
  "find_table (db\<lparr>attempted := a\<rparr>) t = find_table db t"
  by (simp add: find_table_def)

subsection \<open>Location search without a filter\<close>

text \<open>
  Claim C1 says that \<open>search_by_location\<close> with none of the three filters fails with
  InvalidArgument and does not return an empty result.  The method has the guard
  \<open>if not conditions: return []\<close>: on a store with no table at all it returns the empty
  list and raises nothing.
\<close>

theorem search_by_location_no_filter_counterexample:
  "CAGE_search_by_location empty_db None None None DEFAULT_PAGE_SIZE = Inr []
   \<and> \<not> isl (CAGE_search_by_location empty_db None None None DEFAULT_PAGE_SIZE)"
  by (simp add: CAGE_search_by_location_def location_conditions_def truthy_def)

text \<open>
  Claim C1, amended: with none of the three filters supplied (each \<open>None\<close> or empty),
  \<open>search_by_location\<close> returns the empty list as a success, for every limit and every
  state of the store, and sends no statement.
\<close>

theorem search_by_location_no_filter_returns_empty:
  "\<not> truthy state \<Longrightarrow> \<not> truthy city \<Longrightarrow> \<not> truthy country \<Longrightarrow>
   CAGE_search_by_location db state city country limit = Inr []"
  by (simp add: CAGE_search_by_location_def location_conditions_def)

theorem search_by_location_no_filter_returns_empty_witness:
  "\<not> truthy (Some []) \<and> \<not> truthy None
   \<and> CAGE_search_by_location fsc_db (Some []) None None 7 = Inr []"
  using search_by_location_no_filter_returns_empty [of "Some []" None None fsc_db 7]
  by (simp add: truthy_def)

subsection \<open>Describing a relation\<close>



subsection \<open>Loading twice without force\<close>

lemma index_skip:
  "fs p \<noteq> None \<Longrightarrow> is_table_indexed db t \<Longrightarrow>
   index_csv_file fs db t p False = (True, db\<lparr>attempted := attempted db @ [t]\<rparr>)"
  by (simp add: index_csv_file_def Let_def)

lemma index_first:
  assumes "connected db" "fs p = Some (Inr rel)"
  shows "fst (index_csv_file fs db t p False) \<and> is_table_indexed (snd (index_csv_file fs db t p False)) t"
proof (cases "is_table_indexed db t")
  case True
  with assms show ?thesis
    by (simp add: index_skip)
next
  case False
  with assms have nf: "find_table db t = None" by (simp add: is_table_indexed_iff)
  have new: "find_table (db\<lparr>attempted := attempted db @ [t], tables := tables db @ [(t, rel)]\<rparr>) t = Some rel"
    using nf by (simp add: find_table_def find_append_None)
  show ?thesis
    using assms nf False new
    by (simp add: index_csv_file_def Let_def create_table_from_csv_def count_rows_def
        is_table_indexed_iff)
qed

text \<open>
  Claim C6 says that for every table whose source exists, two loads without force both
  succeed.  A source that exists but that the engine cannot read makes the first load
  return \<open>False\<close>: the \<open>except\<close> branch of \<open>index_csv_file\<close>.
\<close>

theorem index_csv_file_unreadable_counterexample:
  "unreadable_fs ''Data/CAGE/P_CAGE.CSV'' \<noteq> None
   \<and> \<not> fst (index_csv_file unreadable_fs empty_db ''P_CAGE'' ''Data/CAGE/P_CAGE.CSV'' False)"
  by code_simp

text \<open>
  Claim C6, amended: for every table whose source exists and can be read by the engine,
  on an open connection, \<open>index_csv_file\<close> with \<open>force = False\<close> called twice in a row
  returns \<open>True\<close> both times, and the second call leaves every relation as the first call
  left it; in particular the row count of the table is the same.
\<close>

theorem index_csv_file_no_force_idempotent:
  assumes "connected db" "fs file_path = Some (Inr rel)"
  shows "fst (index_csv_file fs db t file_path False)
     \<and> fst (index_csv_file fs (snd (index_csv_file fs db t file_path False)) t file_path False)
     \<and> tables (snd (index_csv_file fs (snd (index_csv_file fs db t file_path False)) t file_path False))
         = tables (snd (index_csv_file fs db t file_path False))
     \<and> count_rows (snd (index_csv_file fs (snd (index_csv_file fs db t file_path False)) t file_path False)) t
         = count_rows (snd (index_csv_file fs db t file_path False)) t"
proof -
  define db1 where "db1 = snd (index_csv_file fs db t file_path False)"
  have 1: "fst (index_csv_file fs db t file_path False)" and 2: "is_table_indexed db1 t"
    using index_first [of db fs file_path rel t] assms by (simp_all add: db1_def)
  have ne: "fs file_path \<noteq> None" using assms by simp
  have 3: "index_csv_file fs db1 t file_path False = (True, db1\<lparr>attempted := attempted db1 @ [t]\<rparr>)"
    using index_skip [of fs file_path db1 t] ne 2 by simp
  show ?thesis
    unfolding db1_def [symmetric] using 1 3 by (simp add: count_rows_def find_table_def)
qed

theorem index_csv_file_no_force_idempotent_witness:
  "connected empty_db \<and> cage_fs ''Data/CAGE/P_CAGE.CSV'' = Some (Inr cage_rel)
   \<and> fst (index_csv_file cage_fs empty_db ''P_CAGE'' ''Data/CAGE/P_CAGE.CSV'' False)
   \<and> fst (index_csv_file cage_fs
            (snd (index_csv_file cage_fs empty_db ''P_CAGE'' ''Data/CAGE/P_CAGE.CSV'' False))
            ''P_CAGE'' ''Data/CAGE/P_CAGE.CSV'' False)
   \<and> count_rows (snd (index_csv_file cage_fs
            (snd (index_csv_file cage_fs empty_db ''P_CAGE'' ''Data/CAGE/P_CAGE.CSV'' False))
            ''P_CAGE'' ''Data/CAGE/P_CAGE.CSV'' False)) ''P_CAGE''
       = count_rows (snd (index_csv_file cage_fs empty_db ''P_CAGE'' ''Data/CAGE/P_CAGE.CSV'' False)) ''P_CAGE''"
proof -
  have a: "connected empty_db" by (simp add: empty_db_def)
  have b: "cage_fs ''Data/CAGE/P_CAGE.CSV'' = Some (Inr cage_rel)" by (simp add: cage_fs_def)
  show ?thesis
    using a b
      index_csv_file_no_force_idempotent [of empty_db cage_fs "''Data/CAGE/P_CAGE.CSV''" cage_rel "''P_CAGE''"]
    by simp
qed

subsection \<open>The unified search\<close>

text \<open>
  Claim C7 says that when one service raises, the other categories hold exactly what
  their services returned.  The classification entry is cut to its first \<open>limit\<close> rows
  (\<open>search_fsc(query)[:limit]\<close>): with the contractor relation absent, so that its search
  raises, and two classes matching, a limit of 1 leaves one of the two rows.
\<close>

theorem search_all_fsc_slice_counterexample:
  "isl (CAGE_search fsc_db ''radio'' 1 0)
   \<and> search_fsc fsc_db ''radio'' =
       Inr [[(''FSC'', VInt 5820), (''FSC_TITLE'', VText ''RADIO COMM'')],
            [(''FSC'', VInt 5821), (''FSC_TITLE'', VText ''RADIO NAV'')]]
   \<and> dict_get (search_all fsc_db ''radio'' 1) ''fsc'' =
       Some [[(''FSC'', VInt 5820), (''FSC_TITLE'', VText ''RADIO COMM'')]]"
  by code_simp

text \<open>
  Claim C7, amended: for every query term and limit, \<open>search_all\<close> returns a mapping and
  raises nothing; the entry of a category whose service raises is the empty list; the
  entries of the contractor, stock-number and item-name categories are what their
  services returned, and the entry of the classification category is what its service
  returned, cut to \<open>[:limit]\<close>.
\<close>

theorem search_all_isolates_failures:
  "dict_get (search_all db q limit) ''cage'' = Some (rows_or_empty (CAGE_search db q limit 0))
   \<and> dict_get (search_all db q limit) ''fsc'' = Some (slice_to (rows_or_empty (search_fsc db q)) limit)
   \<and> dict_get (search_all db q limit) ''nsn'' = Some (rows_or_empty (NSN_search db q None limit 0))
   \<and> dict_get (search_all db q limit) ''item_names'' = Some (rows_or_empty (ItemName_search db q limit))"
proof -
  have base: "\<And>k. dict_get [(''cage'', [] :: row list), (''fsc'', []), (''nsn'', []), (''item_names'', [])] k
     = (if k \<in> {''cage'', ''fsc'', ''nsn'', ''item_names''} then Some [] else None)"
    by (simp add: dict_get_def)
  have sl: "slice_to ([] :: row list) limit = []" by (simp add: slice_to_def)
  show ?thesis
    unfolding search_all_def
    by (cases "CAGE_search db q limit 0"; cases "search_fsc db q"; cases "NSN_search db q None limit 0";
        cases "ItemName_search db q limit")
       (simp_all add: dict_get_store_or_log rows_or_empty_def and_then_def base sl)
qed

theorem search_all_isolates_failures_witness:
  "rows_or_empty (CAGE_search fsc_db ''5821'' 10 0) = []
   \<and> dict_get (search_all fsc_db ''5821'' 10) ''cage'' = Some []
   \<and> dict_get (search_all fsc_db ''5821'' 10) ''fsc'' =
       Some [[(''FSC'', VInt 5821), (''FSC_TITLE'', VText ''RADIO NAV'')]]"
proof -
  have a: "rows_or_empty (CAGE_search fsc_db ''5821'' 10 0) = []" by code_simp
  have b: "slice_to (rows_or_empty (search_fsc fsc_db ''5821'')) 10 =
       [[(''FSC'', VInt 5821), (''FSC_TITLE'', VText ''RADIO NAV'')]]" by code_simp
  show ?thesis
    using a b search_all_isolates_failures [of fsc_db "''5821''" 10] by simp
qed

text \<open>
  Claim C9: for every query term and limit, the mapping returned by \<open>search_all\<close> has
  exactly the four keys \<open>cage\<close>, \<open>fsc\<close>, \<open>nsn\<close> and \<open>item_names\<close>, whatever the four
  services do.
\<close>

theorem search_all_keys:
  "dict_keys (search_all db q limit) = [''cage'', ''fsc'', ''nsn'', ''item_names'']"
proof -
  have k0: "dict_keys [(''cage'', [] :: row list), (''fsc'', []), (''nsn'', []), (''item_names'', [])]
            = [''cage'', ''fsc'', ''nsn'', ''item_names'']"
    by (simp add: dict_keys_def)
  show ?thesis
    unfolding search_all_def
    by (simp add: dict_keys_store_or_log k0)
qed

subsection \<open>The full sweep\<close>

lemma attempted_index_csv_file:
  "attempted (snd (index_csv_file fs db t p force)) = attempted db @ [t]"
  by (auto simp: index_csv_file_def Let_def drop_table_if_exists_def create_table_from_csv_def
      split: sum.splits option.splits if_splits)

lemma attempted_attempt_each_once:
  "attempted (snd (attempt_each_once fs force es db)) = attempted db @ map fst es"
proof (induction es arbitrary: db)
  case Nil
  then show ?case by simp
next
  case (Cons e es)
  obtain t p where e: "e = (t, p)" by (cases e)
  obtain ok db' where i: "index_csv_file fs db t p force = (ok, db')" by (cases "index_csv_file fs db t p force")
  have a: "attempted db' = attempted db @ [t]"
    using attempted_index_csv_file [of fs db t p force] i by simp
  show ?case using Cons.IH [of db'] e i a by (simp add: case_prod_beta)
qed

lemma keys_attempt_each_once: "map fst (fst (attempt_each_once fs force es db)) = map fst es"
  by (induction es arbitrary: db) (auto simp: case_prod_beta)

lemma attempt_each_once_append:
  "attempt_each_once fs force (xs @ ys) db =
     (fst (attempt_each_once fs force xs db) @ fst (attempt_each_once fs force ys (snd (attempt_each_once fs force xs db))),
      snd (attempt_each_once fs force ys (snd (attempt_each_once fs force xs db))))"
  by (induction xs arbitrary: db) (auto simp: case_prod_beta)

lemma dict_set_fresh: "k \<notin> set (map fst d) \<Longrightarrow> dict_set k v d = d @ [(k, v)]"
  by (induction d) auto

lemma dict_update_fresh:
  "distinct (map fst r) \<Longrightarrow> set (map fst r) \<inter> set (map fst d) = {} \<Longrightarrow> dict_update d r = d @ r"
proof (induction r arbitrary: d)
  case Nil
  then show ?case by (simp add: dict_update_def)
next
  case (Cons e r)
  obtain k v where e: "e = (k, v)" by (cases e)
  have 1: "dict_set k v d = d @ [(k, v)]" using Cons.prems e by (intro dict_set_fresh) auto
  have 2: "dict_update (d @ [(k, v)]) r = (d @ [(k, v)]) @ r"
    using Cons.prems e by (intro Cons.IH) auto
  show ?case using 1 2 e by (simp add: dict_update_def)
qed

lemma index_tier_eq:
  "distinct ts \<Longrightarrow> set ts \<inter> set (map fst results) = {} \<Longrightarrow>
   index_tier fs all_files force ts (results, db) =
     (results @ fst (attempt_each_once fs force (tier_entries all_files ts) db),
      snd (attempt_each_once fs force (tier_entries all_files ts) db))"
proof (induction ts arbitrary: results db)
  case Nil
  then show ?case by (simp add: tier_entries_def)
next
  case (Cons t ts)
  show ?case
  proof (cases "dict_get all_files t")
    case None
    then have te: "tier_entries all_files (t # ts) = tier_entries all_files ts"
      by (simp add: tier_entries_def)
    show ?thesis using None Cons.prems Cons.IH [of results db] te by simp
  next
    case (Some p)
    then have te: "tier_entries all_files (t # ts) = (t, p) # tier_entries all_files ts"
      by (simp add: tier_entries_def)
    obtain ok db' where i: "index_csv_file fs db t p force = (ok, db')"
      by (cases "index_csv_file fs db t p force")
    have fresh: "dict_set t ok results = results @ [(t, ok)]"
      using Cons.prems by (intro dict_set_fresh) auto
    have ih: "index_tier fs all_files force ts (results @ [(t, ok)], db') =
       ((results @ [(t, ok)]) @ fst (attempt_each_once fs force (tier_entries all_files ts) db'),
        snd (attempt_each_once fs force (tier_entries all_files ts) db'))"
      using Cons.prems by (intro Cons.IH) auto
    show ?thesis using Some te i fresh ih by (simp add: case_prod_beta)
  qed
qed

lemma index_remaining_eq:
  "distinct (map fst es) \<Longrightarrow>
   index_remaining fs force es (results, db) =
     (results @ fst (attempt_each_once fs force (filter (\<lambda>e. fst e \<notin> set (map fst results)) es) db),
      snd (attempt_each_once fs force (filter (\<lambda>e. fst e \<notin> set (map fst results)) es) db))"
proof (induction es arbitrary: results db)
  case Nil
  then show ?case by simp
next
  case (Cons e es)
  obtain t p where e: "e = (t, p)" by (cases e)
  have d: "distinct (map fst es)" and tn: "t \<notin> set (map fst es)" using Cons.prems e by auto
  show ?case
  proof (cases "t \<in> set (map fst results)")
    case True
    then have "dict_get results t \<noteq> None"
      by (simp add: dict_get_def map_of_eq_None_iff)
    then show ?thesis using True e Cons.IH [OF d, of results db] by simp
  next
    case False
    then have none: "dict_get results t = None"
      by (simp add: dict_get_def map_of_eq_None_iff)
    obtain ok db' where i: "index_csv_file fs db t p force = (ok, db')"
      by (cases "index_csv_file fs db t p force")
    define F where "F = filter (\<lambda>e. fst e \<notin> set (map fst results)) es"
    have fresh: "dict_set t ok results = results @ [(t, ok)]"
      using False by (intro dict_set_fresh) auto
    have flt: "filter (\<lambda>e. fst e \<notin> set (map fst (results @ [(t, ok)]))) es = F"
      unfolding F_def using tn by (intro filter_cong) (auto simp: image_iff)
    have lhs: "index_remaining fs force (e # es) (results, db) =
                 index_remaining fs force es (results @ [(t, ok)], db')"
      using none i fresh e by simp
    have ih: "index_remaining fs force es (results @ [(t, ok)], db') =
        ((results @ [(t, ok)]) @ fst (attempt_each_once fs force F db'),
         snd (attempt_each_once fs force F db'))"
      using Cons.IH [OF d, of "results @ [(t, ok)]" db'] unfolding flt .
    have rhs1: "filter (\<lambda>e. fst e \<notin> set (map fst results)) (e # es) = (t, p) # F"
      using False e by (simp add: F_def)
    have rhs2: "attempt_each_once fs force ((t, p) # F) db =
        ((t, ok) # fst (attempt_each_once fs force F db'), snd (attempt_each_once fs force F db'))"
      using i by (simp add: case_prod_beta)
    show ?thesis unfolding lhs ih rhs1 rhs2 by simp
  qed
qed

lemma distinct_PRIORITY_TABLES: "distinct PRIORITY_TABLES" by code_simp
lemma distinct_LARGE_TABLES: "distinct LARGE_TABLES" by code_simp
lemma distinct_catalog_names: "distinct (map fst get_all_data_files)" by code_simp
lemma priority_tier_in_catalog: "map fst (tier_entries get_all_data_files PRIORITY_TABLES) = PRIORITY_TABLES" by code_simp
lemma large_tier_in_catalog: "map fst (tier_entries get_all_data_files LARGE_TABLES) = LARGE_TABLES" by code_simp
lemma tiers_disjoint: "set PRIORITY_TABLES \<inter> set LARGE_TABLES = {}" by code_simp
lemma untiered_filter: "filter (\<lambda>e. fst e \<notin> set (PRIORITY_TABLES @ LARGE_TABLES)) get_all_data_files = untiered_entries"
  by (simp add: untiered_entries_def)
lemma distinct_sweep_order: "distinct (map fst sweep_order)" by code_simp
lemma sweep_order_covers_catalog: "set (map fst sweep_order) = set (dict_keys get_all_data_files)" by code_simp
lemma catalog_size: "length get_all_data_files = 44" by code_simp


lemma index_priority_eq:
  "index_priority_tables fs db force =
     attempt_each_once fs force (tier_entries get_all_data_files PRIORITY_TABLES) db"
  unfolding index_priority_tables_def
  using index_tier_eq [of PRIORITY_TABLES "[]" fs get_all_data_files force db] distinct_PRIORITY_TABLES by simp

lemma index_large_eq:
  "index_large_tables fs db force =
     attempt_each_once fs force (tier_entries get_all_data_files LARGE_TABLES) db"
  unfolding index_large_tables_def
  using index_tier_eq [of LARGE_TABLES "[]" fs get_all_data_files force db] distinct_LARGE_TABLES by simp

text \<open>
  Claim C8: \<open>index_all_tables\<close> attempts each logical name of the catalog exactly once
  per sweep, in the order priority tier, large tier, then the untiered entries, and the
  result it returns holds, for each name, the outcome of that one attempt (no later tier
  overwrites a recorded name).
\<close>

theorem index_all_tables_each_once_in_tier_order:
  "index_all_tables fs db force = attempt_each_once fs force sweep_order db
   \<and> attempted (snd (index_all_tables fs db force)) = attempted db @ map fst sweep_order
   \<and> map fst sweep_order = PRIORITY_TABLES @ LARGE_TABLES @ map fst untiered_entries
   \<and> distinct (map fst sweep_order)
   \<and> set (map fst sweep_order) = set (dict_keys get_all_data_files)"
proof -
  define P where "P = tier_entries get_all_data_files PRIORITY_TABLES"
  define L where "L = tier_entries get_all_data_files LARGE_TABLES"
  define A where "A = attempt_each_once fs force P db"
  define B where "B = attempt_each_once fs force L (snd A)"
  have kA: "map fst (fst A) = PRIORITY_TABLES"
    unfolding A_def P_def by (simp add: keys_attempt_each_once priority_tier_in_catalog)
  have kB: "map fst (fst B) = LARGE_TABLES"
    unfolding B_def L_def by (simp add: keys_attempt_each_once large_tier_in_catalog)
  have u1: "dict_update [] (fst A) = fst A"
    using dict_update_fresh [of "fst A" "[]"] kA distinct_PRIORITY_TABLES by simp
  have u2: "dict_update (fst A) (fst B) = fst A @ fst B"
    using dict_update_fresh [of "fst B" "fst A"] kA kB distinct_LARGE_TABLES tiers_disjoint by (simp add: Int_commute)
  have flt: "filter (\<lambda>e. fst e \<notin> set (map fst (fst A @ fst B))) get_all_data_files = untiered_entries"
    using untiered_filter kA kB by simp
  have rem: "index_remaining fs force get_all_data_files (fst A @ fst B, snd B) =
      ((fst A @ fst B) @ fst (attempt_each_once fs force untiered_entries (snd B)),
       snd (attempt_each_once fs force untiered_entries (snd B)))"
    using index_remaining_eq [OF distinct_catalog_names, of fs force "fst A @ fst B" "snd B"] unfolding flt .
  have all: "index_all_tables fs db force =
      ((fst A @ fst B) @ fst (attempt_each_once fs force untiered_entries (snd B)),
       snd (attempt_each_once fs force untiered_entries (snd B)))"
    unfolding index_all_tables_def index_priority_eq index_large_eq
    using rem by (simp add: case_prod_beta A_def B_def P_def L_def u1 [unfolded A_def P_def]
        u2 [unfolded A_def B_def P_def L_def])
  have spec: "attempt_each_once fs force sweep_order db =
      ((fst A @ fst B) @ fst (attempt_each_once fs force untiered_entries (snd B)),
       snd (attempt_each_once fs force untiered_entries (snd B)))"
    unfolding sweep_order_def
    by (simp add: attempt_each_once_append A_def B_def P_def L_def)
  have 1: "index_all_tables fs db force = attempt_each_once fs force sweep_order db"
    using all spec by simp
  have 2: "attempted (snd (index_all_tables fs db force)) = attempted db @ map fst sweep_order"
    unfolding 1 by (rule attempted_attempt_each_once)
  have 3: "map fst sweep_order = PRIORITY_TABLES @ LARGE_TABLES @ map fst untiered_entries"
    by (simp add: sweep_order_def priority_tier_in_catalog large_tier_in_catalog)
  show ?thesis using 1 2 3 distinct_sweep_order sweep_order_covers_catalog by simp
qed

subsection \<open>The text of the statements\<close>

lemma show_int_1: "show_int 1 = ''1''" by code_simp
lemma show_int_100: "show_int 100 = ''100''" by code_simp

lemmas request_defs = statement_texts_def render_def select_all_def show_int_1 show_int_100

lemma texts_CageGetByCode:
  "statement_texts (CageGetByCode c) = [''SELECT * FROM P_CAGE WHERE CAGE_CODE = ? LIMIT 1'']"
  by (simp add: request_defs CAGE_get_by_code_request_def)

lemma texts_CageSearch:
  "statement_texts (CageSearch q l off) =
    [''SELECT * FROM P_CAGE WHERE UPPER(COMPANY) LIKE ? OR UPPER(CITY) LIKE ? OR CAGE_CODE LIKE ? ORDER BY COMPANY LIMIT ? OFFSET ?'']"
  by (simp add: request_defs CAGE_search_request_def)

lemma texts_CageSearchByLocation:
  "value_class (CageSearchByLocation s c k l) = value_class (CageSearchByLocation s' c' k' l') \<Longrightarrow>
   statement_texts (CageSearchByLocation s c k l) = statement_texts (CageSearchByLocation s' c' k' l')"
  by (simp add: statement_texts_def CAGE_search_by_location_request_def render_def select_all_def
      location_conditions_def)

lemma texts_GetAllFsg:
  "statement_texts GetAllFsg =
    [''SELECT DISTINCT CAST(FSC / 100 AS INTEGER) as FSG, FSG_TITLE FROM V_H2_FSG ORDER BY FSG'']"
  by (simp add: request_defs get_all_fsg_request_def)

lemma texts_GetAllFsc: "statement_texts GetAllFsc = [''SELECT * FROM V_H2_FSC ORDER BY FSC'']"
  by (simp add: request_defs get_all_fsc_request_def)

lemma texts_GetFscByCode:
  "statement_texts (GetFscByCode f) =
    (if parses f then [''SELECT * FROM V_H2_FSC WHERE FSC = ? LIMIT 1'']
     else [''SELECT * FROM V_H2_FSC WHERE CAST(FSC AS VARCHAR) = ? LIMIT 1''])"
  by (auto simp: request_defs get_fsc_by_code_request_def parses_def split: option.splits)

lemma texts_GetFscByFsg:
  "statement_texts (GetFscByFsg g) =
    (if parses g then [''SELECT * FROM V_H2_FSC WHERE FSC >= ? AND FSC < ? ORDER BY FSC''] else [])"
  by (auto simp: request_defs get_fsc_by_fsg_request_def parses_def split: option.splits)

lemma texts_SearchFsc:
  "statement_texts (SearchFsc q) =
    (if parses q then [''SELECT * FROM V_H2_FSC WHERE FSC = ? OR UPPER(FSC_TITLE) LIKE ? ORDER BY FSC LIMIT 100'']
     else [''SELECT * FROM V_H2_FSC WHERE UPPER(FSC_TITLE) LIKE ? ORDER BY FSC LIMIT 100''])"
  by (auto simp: request_defs search_fsc_request_def parses_def split: option.splits)

lemma texts_GetByNiin:
  "statement_texts (GetByNiin n) =
    [''SELECT * FROM P_FLIS_NSN WHERE NIIN = ? LIMIT 1'', ''SELECT * FROM FLISV WHERE NIIN = ? LIMIT 1'']"
  by (simp add: request_defs get_by_niin_request_def)

lemma texts_NsnSearch:
  "value_class (NsnSearch q f l off) = value_class (NsnSearch q' f' l' off') \<Longrightarrow>
   statement_texts (NsnSearch q f l off) = statement_texts (NsnSearch q' f' l' off')"
proof -
  assume "value_class (NsnSearch q f l off) = value_class (NsnSearch q' f' l' off')"
  then have "nsn_conditions q f = nsn_conditions q' f'"
    by (auto simp: nsn_conditions_def truthy_def parses_def split: option.splits)
  then show ?thesis
    by (simp add: statement_texts_def NSN_search_request_def render_def select_all_def)
qed

lemma texts_GetByFsc:
  "statement_texts (GetByFsc f l off) =
    (if parses f then [''SELECT * FROM P_FLIS_NSN WHERE FSC = ? LIMIT ? OFFSET ?'']
     else [''SELECT * FROM P_FLIS_NSN WHERE CAST(FSC AS VARCHAR) = ? LIMIT ? OFFSET ?''])"
  by (auto simp: request_defs get_by_fsc_request_def parses_def split: option.splits)

lemma texts_GetManagementData:
  "statement_texts (GetManagementData n) = [''SELECT * FROM V_FLIS_MANAGEMENT WHERE NIIN = ?'']"
  by (simp add: request_defs by_niin_request_def)

lemma texts_GetCharacteristics:
  "statement_texts (GetCharacteristics n) = [''SELECT * FROM V_CHARACTERISTICS WHERE NIIN = ?'']"
  by (simp add: request_defs by_niin_request_def)

lemma texts_GetByInc:
  "statement_texts (GetByInc i) = [''SELECT * FROM V_H6_NAME_INC WHERE INC = ? LIMIT 1'']"
  by (simp add: request_defs get_by_inc_request_def)

lemma texts_ItemNameSearch:
  "statement_texts (ItemNameSearch q l) =
    [''SELECT * FROM V_H6_NAME_INC WHERE UPPER(FIIG_TITLE) LIKE ? OR UPPER(DEFINITION) LIKE ? OR INC LIKE ? ORDER BY FIIG_TITLE LIMIT ?'']"
  by (simp add: request_defs ItemName_search_request_def)

text \<open>
  The limit of \<open>get_all\<close> is part of the statement text.
\<close>

lemma get_all_limit_in_text:
  "render (fst (get_all_request 10)) = ''SELECT * FROM V_H6_NAME_INC ORDER BY FIIG_TITLE LIMIT 10''
   \<and> render (fst (get_all_request 1000)) = ''SELECT * FROM V_H6_NAME_INC ORDER BY FIIG_TITLE LIMIT 1000''"
  by code_simp

text \<open>
  Claim C3 says that two runs of the same operation with different values of a
  caller-supplied value send the same statement text.  \<open>search_fsc\<close> sends one statement
  for a term that \<open>int()\<close> accepts and another for a term it rejects.
\<close>

theorem statement_text_depends_on_value_counterexample:
  "operation_of (SearchFsc ''5820'') = operation_of (SearchFsc ''RADIO'')
   \<and> statement_texts (SearchFsc ''5820'') =
       [''SELECT * FROM V_H2_FSC WHERE FSC = ? OR UPPER(FSC_TITLE) LIKE ? ORDER BY FSC LIMIT 100'']
   \<and> statement_texts (SearchFsc ''RADIO'') =
       [''SELECT * FROM V_H2_FSC WHERE UPPER(FSC_TITLE) LIKE ? ORDER BY FSC LIMIT 100'']"
  by code_simp

text \<open>
  Claim C3, amended: for every query method of the domain services other than
  \<open>ItemNameService.get_all\<close>, the statement text depends on the caller-supplied values only
  through which optional text filters are non-empty and whether a code argument is
  accepted by \<open>int()\<close>: two runs of the same operation that agree on these send the same
  statement texts, whatever the values are.
\<close>

theorem statement_text_depends_only_on_value_class:
  assumes "operation_of c = operation_of c'" "value_class c = value_class c'"
  shows "statement_texts c = statement_texts c'"
proof (cases c)
  case (CageGetByCode x1)
  with assms(1) obtain y1 where c': "c' = CageGetByCode y1" by (cases c') simp_all
  show ?thesis using assms(2) unfolding CageGetByCode c' by (simp add: texts_CageGetByCode)
next
  case (CageSearch x1 x2 x3)
  with assms(1) obtain y1 y2 y3 where c': "c' = CageSearch y1 y2 y3" by (cases c') simp_all
  show ?thesis using assms(2) unfolding CageSearch c' by (simp add: texts_CageSearch)
next
  case (CageSearchByLocation x1 x2 x3 x4)
  with assms(1) obtain y1 y2 y3 y4 where c': "c' = CageSearchByLocation y1 y2 y3 y4" by (cases c') simp_all
  show ?thesis using assms(2) unfolding CageSearchByLocation c' by (rule texts_CageSearchByLocation)
next
  case (GetAllFsg)
  with assms(1) have c': "c' = GetAllFsg" by (cases c') simp_all
  show ?thesis using assms(2) unfolding GetAllFsg c' by (simp add: texts_GetAllFsg)
next
  case (GetAllFsc)
  with assms(1) have c': "c' = GetAllFsc" by (cases c') simp_all
  show ?thesis using assms(2) unfolding GetAllFsc c' by (simp add: texts_GetAllFsc)
next
  case (GetFscByCode x1)
  with assms(1) obtain y1 where c': "c' = GetFscByCode y1" by (cases c') simp_all
  show ?thesis using assms(2) unfolding GetFscByCode c' by (simp add: texts_GetFscByCode)
next
  case (GetFscByFsg x1)
  with assms(1) obtain y1 where c': "c' = GetFscByFsg y1" by (cases c') simp_all
  show ?thesis using assms(2) unfolding GetFscByFsg c' by (simp add: texts_GetFscByFsg)
next
  case (SearchFsc x1)
  with assms(1) obtain y1 where c': "c' = SearchFsc y1" by (cases c') simp_all
  show ?thesis using assms(2) unfolding SearchFsc c' by (simp add: texts_SearchFsc)
next
  case (GetByNiin x1)
  with assms(1) obtain y1 where c': "c' = GetByNiin y1" by (cases c') simp_all
  show ?thesis using assms(2) unfolding GetByNiin c' by (simp add: texts_GetByNiin)
next
  case (NsnSearch x1 x2 x3 x4)
  with assms(1) obtain y1 y2 y3 y4 where c': "c' = NsnSearch y1 y2 y3 y4" by (cases c') simp_all
  show ?thesis using assms(2) unfolding NsnSearch c' by (rule texts_NsnSearch)
next
  case (GetByFsc x1 x2 x3)
  with assms(1) obtain y1 y2 y3 where c': "c' = GetByFsc y1 y2 y3" by (cases c') simp_all
  show ?thesis using assms(2) unfolding GetByFsc c' by (simp add: texts_GetByFsc)
next
  case (GetManagementData x1)
  with assms(1) obtain y1 where c': "c' = GetManagementData y1" by (cases c') simp_all
  show ?thesis using assms(2) unfolding GetManagementData c' by (simp add: texts_GetManagementData)
next
  case (GetCharacteristics x1)
  with assms(1) obtain y1 where c': "c' = GetCharacteristics y1" by (cases c') simp_all
  show ?thesis using assms(2) unfolding GetCharacteristics c' by (simp add: texts_GetCharacteristics)
next
  case (GetByInc x1)
  with assms(1) obtain y1 where c': "c' = GetByInc y1" by (cases c') simp_all
  show ?thesis using assms(2) unfolding GetByInc c' by (simp add: texts_GetByInc)
next
  case (ItemNameSearch x1 x2)
  with assms(1) obtain y1 y2 where c': "c' = ItemNameSearch y1 y2" by (cases c') simp_all
  show ?thesis using assms(2) unfolding ItemNameSearch c' by (simp add: texts_ItemNameSearch)
qed

theorem statement_text_depends_only_on_value_class_witness:
  "operation_of (NsnSearch ''bolt'' (Some ''5305'') 50 0) = operation_of (NsnSearch ''nut'' (Some ''5310'') 10 20)
   \<and> value_class (NsnSearch ''bolt'' (Some ''5305'') 50 0) = value_class (NsnSearch ''nut'' (Some ''5310'') 10 20)
   \<and> statement_texts (NsnSearch ''bolt'' (Some ''5305'') 50 0) = statement_texts (NsnSearch ''nut'' (Some ''5310'') 10 20)
   \<and> statement_texts (NsnSearch ''bolt'' (Some ''5305'') 50 0) =
       [''SELECT * FROM P_FLIS_NSN WHERE (NIIN LIKE ? OR UPPER(ITEM_NAME) LIKE ?) AND FSC = ? LIMIT ? OFFSET ?'']"
proof -
  have a: "operation_of (NsnSearch ''bolt'' (Some ''5305'') 50 0) = operation_of (NsnSearch ''nut'' (Some ''5310'') 10 20)"
    by simp
  have b: "value_class (NsnSearch ''bolt'' (Some ''5305'') 50 0) = value_class (NsnSearch ''nut'' (Some ''5310'') 10 20)"
    by code_simp
  have c: "statement_texts (NsnSearch ''bolt'' (Some ''5305'') 50 0) =
       [''SELECT * FROM P_FLIS_NSN WHERE (NIIN LIKE ? OR UPPER(ITEM_NAME) LIKE ?) AND FSC = ? LIMIT ? OFFSET ?'']"
    by code_simp
  show ?thesis
    using a b c
      statement_text_depends_only_on_value_class
        [of "NsnSearch ''bolt'' (Some ''5305'') 50 0" "NsnSearch ''nut'' (Some ''5310'') 10 20"]
    by simp
qed

subsection \<open>Running the statements of the services\<close>


lemma sequence_map_Inr: "(\<forall>x\<in>set xs. f x = Inr (g x)) \<Longrightarrow> sequence (map f xs) = Inr (map g xs)"
  by (induction xs) (simp_all add: and_then_def)

lemma keep_true:
  "map fst (filter (\<lambda>(r, b). b = Some True) (zip xs (map g xs))) = filter (\<lambda>r. g r = Some True) xs"
  by (induction xs) simp_all

lemma where_rows_always: "where_rows idv names (Some OneEqualsOne) rows = Inr rows"
proof -
  have "sequence (map (\<lambda>r. eval_cond idv (zip names r) OneEqualsOne) rows) = Inr (map (\<lambda>r. Some True) rows)"
    by (rule sequence_map_Inr) simp
  then show ?thesis using keep_true [of rows "\<lambda>r. Some True"]
    by (simp add: where_rows_def and_then_def)
qed

lemma nsn_no_conditions: "\<not> truthy fsc \<Longrightarrow> nsn_conditions [] fsc = [] \<and> nsn_params [] fsc = []"
  by (auto simp: nsn_conditions_def nsn_params_def truthy_def split: option.splits)

subsection \<open>Stock-number search without a term\<close>

text \<open>
  Claim C10: when the primary stock-number relation is indexed, \<open>NSNService.search\<close> with
  an empty query string and no FSC filter sends the unfiltered statement (\<open>WHERE 1=1\<close>)
  with the limit and the offset as its parameters, and returns, as a success, the rows of
  the relation after the first \<open>offset\<close>, at most \<open>limit\<close> of them; the result is not
  empty when the limit is positive and the relation has more than \<open>offset\<close> rows.  The
  limit and the offset are counts the engine takes: not negative and below \<open>2 ^ 62\<close>.
\<close>

theorem NSN_search_unfiltered:
  assumes "is_table_indexed db ''P_FLIS_NSN''" "\<not> truthy fsc"
    "0 \<le> limit" "limit < 2 ^ 62" "0 \<le> offset" "offset < 2 ^ 62"
  shows "render (fst (NSN_search_request [] fsc limit offset)) = ''SELECT * FROM P_FLIS_NSN WHERE 1=1 LIMIT ? OFFSET ?''
    \<and> snd (NSN_search_request [] fsc limit offset) = [VInt limit, VInt offset]
    \<and> (\<exists>rel. find_table db ''P_FLIS_NSN'' = Some rel
          \<and> NSN_search db [] fsc limit offset =
              Inr (map (\<lambda>r. dict_of (zip (map fst (rel_columns rel)) r))
                     (take (nat limit) (drop (nat offset) (rel_rows rel))))
          \<and> (0 < limit \<and> nat offset < length (rel_rows rel) \<longrightarrow>
                NSN_search db [] fsc limit offset \<noteq> Inr []))"
proof -
  from assms(1) obtain rel where con: "connected db" and rel: "find_table db ''P_FLIS_NSN'' = Some rel"
    by (auto simp: is_table_indexed_iff)
  have req: "NSN_search_request [] fsc limit offset =
      ((select_all ''P_FLIS_NSN'')\<lparr>sel_where := Some OneEqualsOne, sel_limit := Some Param, sel_offset := Some Param\<rparr>,
       [VInt limit, VInt offset])"
    using nsn_no_conditions [OF assms(2)] by (simp add: NSN_search_request_def)
  have rtext: "render (fst (NSN_search_request [] fsc limit offset)) = ''SELECT * FROM P_FLIS_NSN WHERE 1=1 LIMIT ? OFFSET ?''"
    unfolding req by (simp add: render_def select_all_def)
  have b: "bind_params ((select_all ''P_FLIS_NSN'')\<lparr>sel_where := Some OneEqualsOne, sel_limit := Some Param, sel_offset := Some Param\<rparr>)
      [VInt limit, VInt offset] =
      Inr ((select_all ''P_FLIS_NSN'')\<lparr>sel_where := Some OneEqualsOne, sel_limit := Some (Const (VInt limit)),
            sel_offset := Some (Const (VInt offset))\<rparr>)"
    by (simp add: bind_params_def and_then_def select_all_def)
  have run: "run_select db (fst (NSN_search_request [] fsc limit offset)) (snd (NSN_search_request [] fsc limit offset))
      = Inr (map fst (rel_columns rel), take (nat limit) (drop (nat offset) (rel_rows rel)))"
    unfolding req using con rel assms(3,4,5,6)
    by (simp add: run_select_def b and_then_def where_rows_always)
       (simp add: select_all_def project_def order_rows_def eval_count_def count_of_def and_then_def
          window_def rel where_rows_always columns_known_def statement_columns_def)
  show ?thesis
    using rtext req rel assms(1) run by (simp add: NSN_search_def query_def)
qed

theorem NSN_search_unfiltered_witness:
  "is_table_indexed nsn_db ''P_FLIS_NSN'' \<and> \<not> truthy None
   \<and> NSN_search nsn_db [] None 2 1 =
       Inr [[(''NIIN'', VText ''000000058''), (''FSC'', VInt 5310), (''ITEM_NAME'', VText ''NUT'')],
            [(''NIIN'', VText ''000000059''), (''FSC'', VInt 5310), (''ITEM_NAME'', VText ''WASHER'')]]"
proof -
  have a: "is_table_indexed nsn_db ''P_FLIS_NSN''" by code_simp
  have b: "\<not> truthy None" by (simp add: truthy_def)
  have f: "find_table nsn_db ''P_FLIS_NSN'' = Some nsn_rel" by code_simp
  from NSN_search_unfiltered [OF a b, of 2 1] f
  have "NSN_search nsn_db [] None 2 1 =
      Inr (map (\<lambda>r. dict_of (zip (map fst (rel_columns nsn_rel)) r)) (take (nat 2) (drop (nat 1) (rel_rows nsn_rel))))"
    by auto
  moreover have "map (\<lambda>r. dict_of (zip (map fst (rel_columns nsn_rel)) r)) (take (nat 2) (drop (nat 1) (rel_rows nsn_rel)))
     = [[(''NIIN'', VText ''000000058''), (''FSC'', VInt 5310), (''ITEM_NAME'', VText ''NUT'')],
        [(''NIIN'', VText ''000000059''), (''FSC'', VInt 5310), (''ITEM_NAME'', VText ''WASHER'')]]"
    by code_simp
  ultimately show ?thesis using a b by simp
qed

subsection \<open>Stock-number lookup\<close>

lemma niin_where:
  assumes "niin_comparable rel key"
  shows "where_rows idv (map fst (rel_columns rel)) (Some (Compare Equals (Col ''NIIN'') (Const (VText key)))) (rel_rows rel)
     = Inr (filter (has_niin rel key) (rel_rows rel))"
proof -
  let ?names = "map fst (rel_columns rel)"
  let ?f = "\<lambda>r. eval_cond idv (zip ?names r) (Compare Equals (Col ''NIIN'') (Const (VText key)))"
  let ?g = "\<lambda>r. projr (?f r)"
  have ok: "\<forall>r\<in>set (rel_rows rel). ?f r = Inr (?g r)"
  proof
    fix r assume "r \<in> set (rel_rows rel)"
    with assms obtain v where v: "niin_of rel r = Some v" and c: "\<not> isl (compare_values Equals v (VText key))"
      by (auto simp: niin_comparable_def list_all_iff split: option.splits)
    from c obtain b where "compare_values Equals v (VText key) = Inr b"
      by (cases "compare_values Equals v (VText key)") auto
    then show "?f r = Inr (?g r)" using v by (simp add: and_then_def niin_of_def)
  qed
  have same: "filter (\<lambda>r. ?g r = Some True) (rel_rows rel) = filter (has_niin rel key) (rel_rows rel)"
  proof (rule filter_cong [OF refl])
    fix r assume "r \<in> set (rel_rows rel)"
    with assms obtain v where v: "niin_of rel r = Some v" and c: "\<not> isl (compare_values Equals v (VText key))"
      by (auto simp: niin_comparable_def list_all_iff split: option.splits)
    from c obtain b where "compare_values Equals v (VText key) = Inr b"
      by (cases "compare_values Equals v (VText key)") auto
    then show "(?g r = Some True) = has_niin rel key r"
      using v by (simp add: and_then_def niin_of_def has_niin_def)
  qed
  show ?thesis
    unfolding where_rows_def
    using sequence_map_Inr [of "rel_rows rel" ?f ?g] ok keep_true [of "rel_rows rel" ?g] same
    by (simp add: and_then_def)
qed

lemma has_niin_column:
  assumes "has_niin rel key r"
  shows "list_ex (\<lambda>n. upper n = upper ''NIIN'') (map fst (rel_columns rel))"
proof -
  from assms obtain v where "lookup_column (zip (map fst (rel_columns rel)) r) ''NIIN'' = Some v"
    by (auto simp: has_niin_def niin_of_def split: option.splits)
  then obtain n w where f: "find (\<lambda>(n, v). upper n = upper ''NIIN'') (zip (map fst (rel_columns rel)) r) = Some (n, w)"
    by (auto simp: lookup_column_def)
  then have "(n, w) \<in> set (zip (map fst (rel_columns rel)) r)" "upper n = upper ''NIIN''"
    by (auto simp: find_Some_iff in_set_conv_nth)
  then have "n \<in> set (map fst (rel_columns rel))" "upper n = upper ''NIIN''"
    by (auto dest: set_zip_leftD)
  then show ?thesis unfolding list_ex_iff by blast
qed

lemma query_by_niin:
  assumes "connected db" "find_table db t = Some rel" "niin_comparable rel key"
    "list_ex (\<lambda>n. upper n = upper ''NIIN'') (map fst (rel_columns rel))"
  shows "query db (fst (get_by_niin_request t key)) (snd (get_by_niin_request t key))
     = Inr (to_dicts rel (take 1 (filter (has_niin rel key) (rel_rows rel))))"
proof -
  have b: "bind_params ((select_all t)\<lparr>sel_where := Some (Compare Equals (Col ''NIIN'') Param), sel_limit := Some (IntLit 1)\<rparr>)
      [VText key] =
      Inr ((select_all t)\<lparr>sel_where := Some (Compare Equals (Col ''NIIN'') (Const (VText key))), sel_limit := Some (IntLit 1)\<rparr>)"
    by (simp add: bind_params_def and_then_def select_all_def)
  have run: "run_select db (fst (get_by_niin_request t key)) (snd (get_by_niin_request t key))
      = Inr (map fst (rel_columns rel), take 1 (filter (has_niin rel key) (rel_rows rel)))"
    using assms(1,2,4) niin_where [OF assms(3)]
    by (simp add: get_by_niin_request_def run_select_def b and_then_def)
       (simp add: select_all_def project_def order_rows_def eval_count_def count_of_def and_then_def
          window_def columns_known_def statement_columns_def)
  show ?thesis using run by (simp add: query_def to_dicts_def)
qed

text \<open>
  Claim C4: \<open>get_by_niin\<close> follows the two-tier chain: when the primary relation
  (P_FLIS_NSN) is not indexed, or its query gives no row for the key, the answer is that
  of the secondary relation (FLISV); and for every key, when only the secondary relation
  is loaded and the key exists there, the lookup returns a record of that relation with
  this key, not the not-found value.
\<close>

theorem get_by_niin_falls_back_to_secondary:
  "((\<not> is_table_indexed db ''P_FLIS_NSN''
      \<or> query db (fst (get_by_niin_request ''P_FLIS_NSN'' key)) (snd (get_by_niin_request ''P_FLIS_NSN'' key)) = Inr [])
     \<longrightarrow> get_by_niin db key = first_or_none (get_by_niin_in db ''FLISV'' key))
   \<and> (\<not> is_table_indexed db ''P_FLIS_NSN'' \<and> connected db \<and> find_table db ''FLISV'' = Some rel
        \<and> niin_comparable rel key \<and> (\<exists>r\<in>set (rel_rows rel). has_niin rel key r)
     \<longrightarrow> (\<exists>r\<in>set (rel_rows rel). has_niin rel key r
            \<and> get_by_niin db key = Inr (Some (dict_of (zip (map fst (rel_columns rel)) r)))))"
proof (intro conjI impI)
  assume "\<not> is_table_indexed db ''P_FLIS_NSN''
      \<or> query db (fst (get_by_niin_request ''P_FLIS_NSN'' key)) (snd (get_by_niin_request ''P_FLIS_NSN'' key)) = Inr []"
  then have "get_by_niin_in db ''P_FLIS_NSN'' key = Inr []"
    by (auto simp: get_by_niin_in_def)
  then show "get_by_niin db key = first_or_none (get_by_niin_in db ''FLISV'' key)"
    by (cases "get_by_niin_in db ''FLISV'' key")
       (simp_all add: get_by_niin_def first_or_none_def and_then_def split: list.splits)
next
  assume a: "\<not> is_table_indexed db ''P_FLIS_NSN'' \<and> connected db \<and> find_table db ''FLISV'' = Some rel
        \<and> niin_comparable rel key \<and> (\<exists>r\<in>set (rel_rows rel). has_niin rel key r)"
  then have p: "get_by_niin_in db ''P_FLIS_NSN'' key = Inr []"
    by (simp add: get_by_niin_in_def)
  from a have idx: "is_table_indexed db ''FLISV''" by (simp add: is_table_indexed_iff)
  from a have ne: "filter (has_niin rel key) (rel_rows rel) \<noteq> []"
    by (auto simp: filter_empty_conv)
  then obtain r rs where f: "filter (has_niin rel key) (rel_rows rel) = r # rs"
    by (cases "filter (has_niin rel key) (rel_rows rel)") auto
  then have "r \<in> set (filter (has_niin rel key) (rel_rows rel))" by simp
  then have r: "r \<in> set (rel_rows rel)" "has_niin rel key r" by auto
  have q: "get_by_niin_in db ''FLISV'' key = Inr [dict_of (zip (map fst (rel_columns rel)) r)]"
    using idx query_by_niin [of db "''FLISV''" rel key] a f has_niin_column [OF r(2)]
    by (simp add: get_by_niin_in_def to_dicts_def)
  have "get_by_niin db key = Inr (Some (dict_of (zip (map fst (rel_columns rel)) r)))"
    using p q by (simp add: get_by_niin_def and_then_def)
  with r show "\<exists>r\<in>set (rel_rows rel). has_niin rel key r
            \<and> get_by_niin db key = Inr (Some (dict_of (zip (map fst (rel_columns rel)) r)))"
    by blast
qed

theorem get_by_niin_falls_back_to_secondary_witness:
  "\<not> is_table_indexed flisv_db ''P_FLIS_NSN'' \<and> connected flisv_db
   \<and> find_table flisv_db ''FLISV'' = Some flisv_rel
   \<and> niin_comparable flisv_rel ''000000057''
   \<and> has_niin flisv_rel ''000000057'' [VInt 57, VText ''BBBB'']
   \<and> get_by_niin flisv_db ''000000057'' = first_or_none (get_by_niin_in flisv_db ''FLISV'' ''000000057'')
   \<and> get_by_niin flisv_db ''000000057'' \<noteq> Inr None
   \<and> \<not> isl (get_by_niin flisv_db ''000000057'')"
proof -
  have a: "\<not> is_table_indexed flisv_db ''P_FLIS_NSN''" by code_simp
  have b: "connected flisv_db" by code_simp
  have c: "find_table flisv_db ''FLISV'' = Some flisv_rel" by code_simp
  have d: "niin_comparable flisv_rel ''000000057''" by code_simp
  have e: "has_niin flisv_rel ''000000057'' [VInt 57, VText ''BBBB'']" by code_simp
  have m: "[VInt 57, VText ''BBBB''] \<in> set (rel_rows flisv_rel)" by (simp add: flisv_rel_def)
  from m e have ex: "\<exists>r\<in>set (rel_rows flisv_rel). has_niin flisv_rel ''000000057'' r" by blast
  note t = get_by_niin_falls_back_to_secondary [of flisv_db "''000000057''" flisv_rel]
  from t a have 1: "get_by_niin flisv_db ''000000057'' = first_or_none (get_by_niin_in flisv_db ''FLISV'' ''000000057'')"
    by blast
  from t a b c d ex obtain r where "get_by_niin flisv_db ''000000057'' =
      Inr (Some (dict_of (zip (map fst (rel_columns flisv_rel)) r)))"
    by blast
  then have 2: "get_by_niin flisv_db ''000000057'' \<noteq> Inr None" "\<not> isl (get_by_niin flisv_db ''000000057'')"
    by simp_all
  show ?thesis using a b c d e 1 2 by simp
qed

subsection \<open>The group of a class\<close>

text \<open>
  The group is the value of \<open>CAST(FSC / 100 AS INTEGER)\<close>.  With the integer division of
  the engine this is \<open>c div 100\<close> for a class code \<open>c\<close> that is not negative.  With its
  floating-point division the cast rounds the quotient: the value is \<open>c div 100\<close> only
  when the last two digits of the code are below 50 (or are 50 and the group is even).
\<close>


lemma truncated_div_nonneg: "0 \<le> c \<Longrightarrow> truncated_div c 100 = c div 100"
  by (cases "c = 0") (simp_all add: truncated_div_def)

lemma round_half_even_hundredths:
  "round_half_even (of_int c / 100) =
     (if c mod 100 < 50 \<or> (c mod 100 = 50 \<and> even (c div 100)) then c div 100 else c div 100 + 1)"
proof -
  have f: "\<lfloor>(of_int c :: rat) / 100\<rfloor> = c div 100"
    using floor_divide_of_int_eq [of c 100, where ?'a = rat] by simp
  have "(of_int c :: rat) = of_int (c div 100) * 100 + of_int (c mod 100)"
    by (metis of_int_add of_int_mult of_int_numeral div_mult_mod_eq)
  then have d: "(of_int c :: rat) / 100 - of_int (c div 100) = of_int (c mod 100) / 100"
    by (simp add: field_simps)
  have lt: "(of_int (c mod 100) / 100 < (1 / 2 :: rat)) = (c mod 100 < 50)"
    by (simp add: field_simps)
  have gt: "((1 / 2 :: rat) < of_int (c mod 100) / 100) = (50 < c mod 100)"
    by (simp add: field_simps)
  show ?thesis
    unfolding round_half_even_def Let_def f d lt gt by auto
qed

lemma fsg_expression_value:
  "lookup_column r ''FSC'' = Some (VInt c) \<Longrightarrow>
   eval_expr int_div r (CastInteger (Divide (Col ''FSC'') (IntLit 100))) =
     to_int32 (if int_div then truncated_div c 100 else round_half_even (of_int c / 100))"
  by (simp add: and_then_def divide_values_def cast_integer_def)

lemma get_all_fsg_5820_5821:
  "get_all_fsg (fsg_db False fsg_rel) = Inr [[(''FSG'', VInt 58), (''FSG_TITLE'', VText ''COMM EQUIPMENT'')]]
   \<and> get_all_fsg (fsg_db True fsg_rel) = Inr [[(''FSG'', VInt 58), (''FSG_TITLE'', VText ''COMM EQUIPMENT'')]]"
  by code_simp

lemma get_all_fsg_integer_division_5895:
  "get_all_fsg (fsg_db True fsg_rel_5895) = Inr [[(''FSG'', VInt 58), (''FSG_TITLE'', VText ''COMM EQUIPMENT'')]]"
  by code_simp

text \<open>
  Claim C2 says that the group reported for a class code \<open>c\<close> is \<open>c div 100\<close>.  On an engine
  whose \<open>/\<close> is floating-point division, the group table with the classes 5820 and 5895
  of one group gives two groups, 58 and 59: the class 5895 is reported under 59, while
  \<open>get_fsc_by_fsg\<close>, which takes the range from \<open>fsg * 100\<close> to \<open>(fsg + 1) * 100\<close>, finds
  it in group 58 and finds nothing in group 59.
\<close>

theorem get_all_fsg_rounds_the_group:
  "get_all_fsg (fsg_db False fsg_rel_5895) =
     Inr [[(''FSG'', VInt 58), (''FSG_TITLE'', VText ''COMM EQUIPMENT'')],
          [(''FSG'', VInt 59), (''FSG_TITLE'', VText ''COMM EQUIPMENT'')]]
   \<and> get_fsc_by_fsg (fsg_db False fsg_rel_5895) ''58'' =
       Inr [[(''FSC'', VInt 5820), (''FSC_TITLE'', VText ''RADIO COMM'')],
            [(''FSC'', VInt 5895), (''FSC_TITLE'', VText ''MISC COMM'')]]
   \<and> get_fsc_by_fsg (fsg_db False fsg_rel_5895) ''59'' = Inr []"
  by code_simp

end
